theory Spec2Isabelle
  imports Complex_Main "HOL-Library.Multiset"
begin

section \<open>The mass-spring time step of project4.js\<close>

text \<open>
  The development embeds the function \<open>SimTimeStep\<close> of
  \<^verbatim>\<open>src/project3_TriangularMeshes/project4.js\<close> (lines 419 to 489).

  Numbers of the source are IEEE doubles, and the step is embedded twice. The first
  embedding takes them as \<^typ>\<open>real\<close>: arithmetic is exact and every value is finite, so
  rounding, overflow, infinities and NaN are outside it. It carries the properties of the
  formulas of the step, of its faults and of what it leaves unchanged. The one operation
  whose result on finite operands is not a finite number is the division by
  \<open>particleMass = 0\<close>; theorems on reals that depend on this division assume
  \<open>particleMass \<noteq> 0\<close>. The second embedding, further down, takes numbers as finite values,
  infinities and NaN; it carries the property of the bounding box, which depends on how the
  comparisons of the collision loop treat NaN.

  The arrays \<open>positions\<close>, \<open>velocities\<close> and \<open>springs\<close> are passed by reference
  and the vectors in the first two are updated in place. They are embedded as lists of
  values, and the step returns their final contents together with the way the call ended.
  No vector object is taken to occur twice among the entries of \<open>positions\<close> and
  \<open>velocities\<close>, so that an update of one entry changes no other.
  A read outside an array yields \<open>undefined\<close> in the source, and the first use of a
  member of \<open>undefined\<close> throws a TypeError; the model returns the error together with
  the contents of the arrays at the moment of the throw. Array indices are integers.
\<close>

subsection \<open>Three-component vectors\<close>

datatype vec3 = Vec3 (vec_x: real) (vec_y: real) (vec_z: real)

text \<open>
  The step calls the methods \<open>mul\<close>, \<open>div\<close>, \<open>add\<close>, \<open>sub\<close>, \<open>dot\<close>,
  \<open>len\<close>, \<open>unit\<close>, \<open>inc\<close> and \<open>dec\<close> of the class \<open>Vec3\<close>. The class is
  not part of the source files; each method is modelled from what the spec (sections 4.1
  and 4.2) says the step computes with it.
\<close>

text \<open>Modelled from the spec: \<open>Vec3.mul\<close>, missing from the source files. The product
  of a vector and a scalar, as in \<open>gravity * particleMass\<close> and \<open>velocity * dt\<close>.\<close>

definition Vec3_mul :: "vec3 \<Rightarrow> real \<Rightarrow> vec3" where
  "Vec3_mul v f = Vec3 (vec_x v * f) (vec_y v * f) (vec_z v * f)"

text \<open>Modelled from the spec: \<open>Vec3.div\<close>, missing from the source files. The quotient
  of a vector by a scalar, as in \<open>force / particleMass\<close> and \<open>d / L\<close>. In the model a
  quotient by zero is zero; the step divides by \<open>particleMass\<close>, and
  \<open>unit\<close> by a length that is not zero.\<close>

definition Vec3_div :: "vec3 \<Rightarrow> real \<Rightarrow> vec3" where
  "Vec3_div v f = Vec3 (vec_x v / f) (vec_y v / f) (vec_z v / f)"

text \<open>Modelled from the spec: \<open>Vec3.add\<close>, missing from the source files. The sum of
  two vectors, as in \<open>f = fs + fd\<close>.\<close>

definition Vec3_add :: "vec3 \<Rightarrow> vec3 \<Rightarrow> vec3" where
  "Vec3_add v w = Vec3 (vec_x v + vec_x w) (vec_y v + vec_y w) (vec_z v + vec_z w)"

text \<open>Modelled from the spec: \<open>Vec3.sub\<close>, missing from the source files. The
  difference of two vectors, as in \<open>d = pos[p1] - pos[p0]\<close>.\<close>

definition Vec3_sub :: "vec3 \<Rightarrow> vec3 \<Rightarrow> vec3" where
  "Vec3_sub v w = Vec3 (vec_x v - vec_x w) (vec_y v - vec_y w) (vec_z v - vec_z w)"

text \<open>Modelled from the spec: \<open>Vec3.dot\<close>, missing from the source files. The dot
  product, as in \<open>dot(vel[p1] - vel[p0], dir)\<close>.\<close>

definition Vec3_dot :: "vec3 \<Rightarrow> vec3 \<Rightarrow> real" where
  "Vec3_dot v w = vec_x v * vec_x w + vec_y v * vec_y w + vec_z v * vec_z w"

text \<open>Modelled from the spec: \<open>Vec3.len\<close>, missing from the source files. The
  Euclidean length \<open>L = |d|\<close>.\<close>

definition Vec3_len :: "vec3 \<Rightarrow> real" where
  "Vec3_len v = sqrt (Vec3_dot v v)"

text \<open>Modelled from the spec: \<open>Vec3.unit\<close>, missing from the source files. The unit
  direction \<open>d / L\<close> when \<open>L > 0\<close>, and the zero vector in the degenerate case
  \<open>L = 0\<close>.\<close>

definition Vec3_unit :: "vec3 \<Rightarrow> vec3" where
  "Vec3_unit v = (if Vec3_len v = 0 then Vec3 0 0 0 else Vec3_div v (Vec3_len v))"

text \<open>Modelled from the spec: \<open>Vec3.inc\<close>, missing from the source files. It adds a
  vector to the receiver in place (\<open>velocity += acceleration * dt\<close>); the model returns
  the receiver's new value.\<close>

definition Vec3_inc :: "vec3 \<Rightarrow> vec3 \<Rightarrow> vec3" where
  "Vec3_inc this v = Vec3 (vec_x this + vec_x v) (vec_y this + vec_y v) (vec_z this + vec_z v)"

text \<open>Modelled from the spec: \<open>Vec3.dec\<close>, missing from the source files. It subtracts
  a vector from the receiver in place; the model returns the receiver's new value.\<close>

definition Vec3_dec :: "vec3 \<Rightarrow> vec3 \<Rightarrow> vec3" where
  "Vec3_dec this v = Vec3 (vec_x this - vec_x v) (vec_y this - vec_y v) (vec_z this - vec_z v)"

text \<open>
  The collision loop addresses a component by its name, \<open>positions[i][dim]\<close> with
  \<open>dim\<close> one of \<open>"x"\<close>, \<open>"y"\<close>, \<open>"z"\<close>.
\<close>

datatype axis = AxisX | AxisY | AxisZ

fun coord :: "axis \<Rightarrow> vec3 \<Rightarrow> real" where
  "coord AxisX v = vec_x v"
| "coord AxisY v = vec_y v"
| "coord AxisZ v = vec_z v"

fun set_coord :: "axis \<Rightarrow> real \<Rightarrow> vec3 \<Rightarrow> vec3" where
  "set_coord AxisX c (Vec3 a b d) = Vec3 c b d"
| "set_coord AxisY c (Vec3 a b d) = Vec3 a c d"
| "set_coord AxisZ c (Vec3 a b d) = Vec3 a b c"

subsection \<open>Arrays, springs and faults\<close>

datatype error = TypeError

record spring =
  p0 :: int
  p1 :: int
  rest :: real

record arrays =
  positions :: "vec3 list"
  velocities :: "vec3 list"
  springs :: "spring list"

text \<open>\<open>xs[i]\<close>: \<open>None\<close> stands for \<open>undefined\<close>.\<close>

definition array_get :: "'a list \<Rightarrow> int \<Rightarrow> 'a option" where
  "array_get xs i = (if 0 \<le> i \<and> i < int (length xs) then Some (xs ! nat i) else None)"

subsection \<open>Phase 2: spring forces and damping (lines 439 to 463)\<close>

definition spring_force :: "real \<Rightarrow> real \<Rightarrow> real \<Rightarrow> vec3 \<Rightarrow> vec3 \<Rightarrow> vec3 \<Rightarrow> vec3 \<Rightarrow> vec3" where
  "spring_force stiffness damping restLength pos_i pos_j vi vj =
     (let d = Vec3_sub pos_j pos_i;
          L = Vec3_len d;
          dir = Vec3_unit d;
          fs = Vec3_mul dir (stiffness * (L - restLength));
          vRel = Vec3_sub vj vi;
          fd = Vec3_mul dir (damping * Vec3_dot vRel dir)
      in Vec3_add fs fd)"

text \<open>
  One iteration of the loop over the springs. \<open>pj.sub(pi)\<close> throws when either position
  is \<open>undefined\<close>, \<open>vj.sub(vi)\<close> when either velocity is; nothing has been written
  before. Then \<open>forces[i].inc(f)\<close> and \<open>forces[j].dec(f)\<close> update the force buffer.
\<close>

definition spring_body ::
  "vec3 list \<Rightarrow> vec3 list \<Rightarrow> real \<Rightarrow> real \<Rightarrow> spring \<Rightarrow> vec3 list \<Rightarrow> error + vec3 list" where
  "spring_body ps vs stiffness damping s forces =
     (let i = p0 s; j = p1 s in
      case (array_get ps i, array_get ps j, array_get vs i, array_get vs j) of
        (Some pos_i, Some pos_j, Some vi, Some vj) \<Rightarrow>
          (let f = spring_force stiffness damping (rest s) pos_i pos_j vi vj in
           case array_get forces i of
             None \<Rightarrow> Inl TypeError
           | Some fi \<Rightarrow>
               (let forces1 = forces[nat i := Vec3_inc fi f] in
                case array_get forces1 j of
                  None \<Rightarrow> Inl TypeError
                | Some fj \<Rightarrow> Inr (forces1[nat j := Vec3_dec fj f])))
      | _ \<Rightarrow> Inl TypeError)"

fun spring_loop ::
  "vec3 list \<Rightarrow> vec3 list \<Rightarrow> real \<Rightarrow> real \<Rightarrow> spring list \<Rightarrow> vec3 list \<Rightarrow> error + vec3 list" where
  "spring_loop ps vs stiffness damping [] forces = Inr forces"
| "spring_loop ps vs stiffness damping (s # ss) forces =
     (case spring_body ps vs stiffness damping s forces of
        Inl e \<Rightarrow> Inl e
      | Inr forces' \<Rightarrow> spring_loop ps vs stiffness damping ss forces')"

subsection \<open>Phase 3: semi-implicit Euler (lines 465 to 470)\<close>

text \<open>
  \<open>velocities[i]\<close> is updated before \<open>positions[i]\<close> is read, so a throw at the
  second statement leaves the new velocity behind.
\<close>

function integrate_loop ::
  "real \<Rightarrow> real \<Rightarrow> vec3 list \<Rightarrow> nat \<Rightarrow> nat \<Rightarrow> arrays \<Rightarrow> error option \<times> arrays" where
  "integrate_loop dt particleMass forces numParticles i a =
     (if i < numParticles then
        (case array_get forces (int i) of
           None \<Rightarrow> (Some TypeError, a)
         | Some fi \<Rightarrow>
             (let acc = Vec3_div fi particleMass in
              case array_get (velocities a) (int i) of
                None \<Rightarrow> (Some TypeError, a)
              | Some vi \<Rightarrow>
                  (let vi' = Vec3_inc vi (Vec3_mul acc dt);
                       a1 = a\<lparr>velocities := (velocities a)[i := vi']\<rparr> in
                   case array_get (positions a1) (int i) of
                     None \<Rightarrow> (Some TypeError, a1)
                   | Some pos_i \<Rightarrow>
                       integrate_loop dt particleMass forces numParticles (Suc i)
                         (a1\<lparr>positions := (positions a1)[i := Vec3_inc pos_i (Vec3_mul vi' dt)]\<rparr>))))
      else (None, a))"
  by pat_completeness auto
termination
  by (relation "measure (\<lambda>(dt, particleMass, forces, numParticles, i, a). numParticles - i)") auto

declare integrate_loop.simps [simp del]

subsection \<open>Phase 4: collisions with the bounding box (lines 472 to 488)\<close>

text \<open>
  The body of the inner loop for one particle and one \<open>dim\<close> (here \<open>ax\<close>): two \<open>if\<close> statements
  in sequence, the second reading what the first has written.
\<close>

definition collide_dim :: "real \<Rightarrow> axis \<Rightarrow> vec3 \<times> vec3 \<Rightarrow> vec3 \<times> vec3" where
  "collide_dim restitution ax pv =
     (let (p, v) = pv;
          (p, v) =
            (if coord ax p < - 1 then
               (set_coord ax (- 1) p,
                if coord ax v < 0 then set_coord ax (- coord ax v * restitution) v else v)
             else (p, v));
          (p, v) =
            (if coord ax p > 1 then
               (set_coord ax 1 p,
                if coord ax v > 0 then set_coord ax (- coord ax v * restitution) v else v)
             else (p, v))
      in (p, v))"

definition collide :: "real \<Rightarrow> vec3 \<times> vec3 \<Rightarrow> vec3 \<times> vec3" where
  "collide restitution pv = fold (collide_dim restitution) [AxisX, AxisY, AxisZ] pv"

text \<open>
  The outer loop. When it runs, phase 3 has completed, so \<open>positions[i]\<close> and
  \<open>velocities[i]\<close> exist for every \<open>i < numParticles\<close>; the fault branch below is
  there for totality and is never taken from \<open>SimTimeStep\<close>.
\<close>

function collision_loop :: "real \<Rightarrow> nat \<Rightarrow> nat \<Rightarrow> arrays \<Rightarrow> error option \<times> arrays" where
  "collision_loop restitution numParticles i a =
     (if i < numParticles then
        (case (array_get (positions a) (int i), array_get (velocities a) (int i)) of
           (Some pos_i, Some vi) \<Rightarrow>
             (let (pos_i', vi') = collide restitution (pos_i, vi) in
              collision_loop restitution numParticles (Suc i)
                (a\<lparr>positions := (positions a)[i := pos_i'], velocities := (velocities a)[i := vi']\<rparr>))
         | _ \<Rightarrow> (Some TypeError, a))
      else (None, a))"
  by pat_completeness auto
termination
  by (relation "measure (\<lambda>(restitution, numParticles, i, a). numParticles - i)") auto

declare collision_loop.simps [simp del]

subsection \<open>The step\<close>

definition init_forces :: "nat \<Rightarrow> vec3 \<Rightarrow> real \<Rightarrow> vec3 list" where
  "init_forces numParticles gravity particleMass =
     map (\<lambda>i. Vec3_mul gravity particleMass) [0..<numParticles]"

definition SimTimeStep ::
  "real \<Rightarrow> vec3 list \<Rightarrow> vec3 list \<Rightarrow> spring list \<Rightarrow> real \<Rightarrow> real \<Rightarrow> real \<Rightarrow> vec3 \<Rightarrow> real
     \<Rightarrow> error option \<times> arrays" where
  "SimTimeStep dt ps vs sps stiffness damping particleMass gravity restitution =
     (let numParticles = length ps;
          a = \<lparr>positions = ps, velocities = vs, springs = sps\<rparr>
      in case spring_loop ps vs stiffness damping sps
                (init_forces numParticles gravity particleMass) of
           Inl e \<Rightarrow> (Some e, a)
         | Inr forces \<Rightarrow>
             (case integrate_loop dt particleMass forces numParticles 0 a of
                (Some e, a1) \<Rightarrow> (Some e, a1)
              | (None, a1) \<Rightarrow> collision_loop restitution numParticles 0 a1))"

subsection \<open>Notions used to state the properties\<close>

text \<open>
  A spring is valid for the arrays when both of its indices address an element of
  \<open>positions\<close> and of \<open>velocities\<close>.
\<close>

definition spring_valid :: "vec3 list \<Rightarrow> vec3 list \<Rightarrow> spring \<Rightarrow> bool" where
  "spring_valid ps vs s \<longleftrightarrow>
     0 \<le> p0 s \<and> p0 s < int (length ps) \<and> p0 s < int (length vs) \<and>
     0 \<le> p1 s \<and> p1 s < int (length ps) \<and> p1 s < int (length vs)"

text \<open>The vector \<open>f\<close> that the loop body computes for a spring.\<close>

definition spring_f :: "vec3 list \<Rightarrow> vec3 list \<Rightarrow> real \<Rightarrow> real \<Rightarrow> spring \<Rightarrow> vec3" where
  "spring_f ps vs stiffness damping s =
     spring_force stiffness damping (rest s)
       (ps ! nat (p0 s)) (ps ! nat (p1 s)) (vs ! nat (p0 s)) (vs ! nat (p1 s))"

text \<open>What a spring adds to component \<open>a\<close> of the force on particle \<open>n\<close>.\<close>

definition contribution ::
  "vec3 list \<Rightarrow> vec3 list \<Rightarrow> real \<Rightarrow> real \<Rightarrow> spring \<Rightarrow> nat \<Rightarrow> axis \<Rightarrow> real" where
  "contribution ps vs stiffness damping s n a =
     (if n = nat (p0 s) then coord a (spring_f ps vs stiffness damping s) else 0)
     - (if n = nat (p1 s) then coord a (spring_f ps vs stiffness damping s) else 0)"

text \<open>The effect of the two \<open>if\<close> statements on one coordinate, in closed form.\<close>

definition clamp_pos :: "real \<Rightarrow> real" where
  "clamp_pos c = (if c < - 1 then - 1 else if c > 1 then 1 else c)"

definition bounce_vel :: "real \<Rightarrow> real \<Rightarrow> real \<Rightarrow> real" where
  "bounce_vel restitution c w =
     (if c < - 1 then (if w < 0 then - w * restitution else w)
      else if c > 1 then (if w > 0 then - w * restitution else w)
      else w)"

text \<open>The values phase 3 writes for one particle.\<close>

definition new_velocity :: "real \<Rightarrow> real \<Rightarrow> vec3 \<Rightarrow> vec3 \<Rightarrow> vec3" where
  "new_velocity dt particleMass force v = Vec3_inc v (Vec3_mul (Vec3_div force particleMass) dt)"

definition new_position :: "real \<Rightarrow> real \<Rightarrow> vec3 \<Rightarrow> vec3 \<Rightarrow> vec3 \<Rightarrow> vec3" where
  "new_position dt particleMass force v p =
     Vec3_inc p (Vec3_mul (new_velocity dt particleMass force v) dt)"

section \<open>The step on doubles with infinities and NaN\<close>

text \<open>
  The comparisons of the collision loop are false when an operand is NaN, and the step can
  produce an infinity and then a NaN from finite arguments. To state what the collision
  loop guarantees, the step is embedded a second time over a type of numbers that has the
  special values of an IEEE double: a finite value, the two infinities and NaN.

  The arithmetic keeps what matters for these values. An operation on finite operands has
  its exact result, unless the magnitude of that result is at least \<open>2 ^ 1024\<close>, which no
  double holds: the result is then the infinity of its sign. The rules for infinities and
  NaN are those of IEEE 754; in particular \<open>0 * Infinity\<close> and \<open>Infinity - Infinity\<close>
  are NaN and every comparison with NaN is false. The rounding of a finite result to 53
  bits and the sign of zero are not modelled (a zero divisor is taken to be \<open>+0\<close>).
\<close>

datatype double = Finite real | PosInf | NegInf | NaN

definition overflow :: "real \<Rightarrow> double" where
  "overflow r =
     (if 2 ^ 1024 \<le> r then PosInf else if r \<le> - (2 ^ 1024) then NegInf else Finite r)"

text \<open>Unary minus, \<open>-a\<close>.\<close>

fun neg_d :: "double \<Rightarrow> double" where
  "neg_d (Finite a) = Finite (- a)"
| "neg_d PosInf = NegInf"
| "neg_d NegInf = PosInf"
| "neg_d NaN = NaN"

text \<open>\<open>a + b\<close>.\<close>

fun add_d :: "double \<Rightarrow> double \<Rightarrow> double" where
  "add_d NaN b = NaN"
| "add_d a NaN = NaN"
| "add_d (Finite a) (Finite b) = overflow (a + b)"
| "add_d PosInf NegInf = NaN"
| "add_d NegInf PosInf = NaN"
| "add_d PosInf b = PosInf"
| "add_d NegInf b = NegInf"
| "add_d (Finite a) PosInf = PosInf"
| "add_d (Finite a) NegInf = NegInf"

text \<open>\<open>a - b\<close>, which is \<open>a + (-b)\<close>.\<close>

definition sub_d :: "double \<Rightarrow> double \<Rightarrow> double" where
  "sub_d a b = add_d a (neg_d b)"

text \<open>\<open>a * b\<close>.\<close>

fun mul_d :: "double \<Rightarrow> double \<Rightarrow> double" where
  "mul_d NaN b = NaN"
| "mul_d a NaN = NaN"
| "mul_d (Finite a) (Finite b) = overflow (a * b)"
| "mul_d (Finite a) PosInf = (if a = 0 then NaN else if 0 < a then PosInf else NegInf)"
| "mul_d (Finite a) NegInf = (if a = 0 then NaN else if 0 < a then NegInf else PosInf)"
| "mul_d PosInf (Finite b) = (if b = 0 then NaN else if 0 < b then PosInf else NegInf)"
| "mul_d NegInf (Finite b) = (if b = 0 then NaN else if 0 < b then NegInf else PosInf)"
| "mul_d PosInf PosInf = PosInf"
| "mul_d PosInf NegInf = NegInf"
| "mul_d NegInf PosInf = NegInf"
| "mul_d NegInf NegInf = PosInf"

text \<open>\<open>a / b\<close>. A finite value divided by zero is an infinity, or NaN for \<open>0 / 0\<close>.\<close>

fun div_d :: "double \<Rightarrow> double \<Rightarrow> double" where
  "div_d NaN b = NaN"
| "div_d a NaN = NaN"
| "div_d (Finite a) (Finite b) =
     (if b = 0 then (if a = 0 then NaN else if 0 < a then PosInf else NegInf)
      else overflow (a / b))"
| "div_d (Finite a) PosInf = Finite 0"
| "div_d (Finite a) NegInf = Finite 0"
| "div_d PosInf (Finite b) = (if 0 \<le> b then PosInf else NegInf)"
| "div_d NegInf (Finite b) = (if 0 \<le> b then NegInf else PosInf)"
| "div_d PosInf PosInf = NaN"
| "div_d PosInf NegInf = NaN"
| "div_d NegInf PosInf = NaN"
| "div_d NegInf NegInf = NaN"

text \<open>\<open>Math.sqrt(a)\<close>.\<close>

fun sqrt_d :: "double \<Rightarrow> double" where
  "sqrt_d (Finite a) = (if a < 0 then NaN else Finite (sqrt a))"
| "sqrt_d PosInf = PosInf"
| "sqrt_d NegInf = NaN"
| "sqrt_d NaN = NaN"

text \<open>\<open>a < b\<close>; \<open>a > b\<close> is \<open>lt_d b a\<close>. Both are false when an operand is NaN.\<close>

fun lt_d :: "double \<Rightarrow> double \<Rightarrow> bool" where
  "lt_d NaN b = False"
| "lt_d a NaN = False"
| "lt_d (Finite a) (Finite b) = (a < b)"
| "lt_d PosInf b = False"
| "lt_d a NegInf = False"
| "lt_d NegInf b = True"
| "lt_d (Finite a) PosInf = True"

text \<open>A number that lies in the closed interval from \<open>-1\<close> to \<open>1\<close>.\<close>

definition within_box :: "double \<Rightarrow> bool" where
  "within_box c = (case c of Finite r \<Rightarrow> - 1 \<le> r \<and> r \<le> 1 | _ \<Rightarrow> False)"

subsection \<open>Vectors of doubles\<close>

datatype vec3_d = Vec3_d (d_x: double) (d_y: double) (d_z: double)

text \<open>Modelled from the spec: \<open>Vec3.mul\<close>, missing from the source files. The product
  of a vector and a scalar.\<close>

definition Vec3_mul_d :: "vec3_d \<Rightarrow> double \<Rightarrow> vec3_d" where
  "Vec3_mul_d v f = Vec3_d (mul_d (d_x v) f) (mul_d (d_y v) f) (mul_d (d_z v) f)"

text \<open>Modelled from the spec: \<open>Vec3.div\<close>, missing from the source files. The quotient
  of a vector by a scalar.\<close>

definition Vec3_div_d :: "vec3_d \<Rightarrow> double \<Rightarrow> vec3_d" where
  "Vec3_div_d v f = Vec3_d (div_d (d_x v) f) (div_d (d_y v) f) (div_d (d_z v) f)"

text \<open>Modelled from the spec: \<open>Vec3.add\<close>, missing from the source files. The sum of
  two vectors.\<close>

definition Vec3_add_d :: "vec3_d \<Rightarrow> vec3_d \<Rightarrow> vec3_d" where
  "Vec3_add_d v w = Vec3_d (add_d (d_x v) (d_x w)) (add_d (d_y v) (d_y w)) (add_d (d_z v) (d_z w))"

text \<open>Modelled from the spec: \<open>Vec3.sub\<close>, missing from the source files. The
  difference of two vectors.\<close>

definition Vec3_sub_d :: "vec3_d \<Rightarrow> vec3_d \<Rightarrow> vec3_d" where
  "Vec3_sub_d v w = Vec3_d (sub_d (d_x v) (d_x w)) (sub_d (d_y v) (d_y w)) (sub_d (d_z v) (d_z w))"

text \<open>Modelled from the spec: \<open>Vec3.dot\<close>, missing from the source files. The dot
  product, summed from left to right.\<close>

definition Vec3_dot_d :: "vec3_d \<Rightarrow> vec3_d \<Rightarrow> double" where
  "Vec3_dot_d v w =
     add_d (add_d (mul_d (d_x v) (d_x w)) (mul_d (d_y v) (d_y w))) (mul_d (d_z v) (d_z w))"

text \<open>Modelled from the spec: \<open>Vec3.len\<close>, missing from the source files. The
  Euclidean length.\<close>

definition Vec3_len_d :: "vec3_d \<Rightarrow> double" where
  "Vec3_len_d v = sqrt_d (Vec3_dot_d v v)"

text \<open>Modelled from the spec: \<open>Vec3.unit\<close>, missing from the source files. The unit
  direction \<open>d / L\<close>, and the zero vector in the degenerate case \<open>L = 0\<close>.\<close>

definition Vec3_unit_d :: "vec3_d \<Rightarrow> vec3_d" where
  "Vec3_unit_d v =
     (if Vec3_len_d v = Finite 0 then Vec3_d (Finite 0) (Finite 0) (Finite 0)
      else Vec3_div_d v (Vec3_len_d v))"

text \<open>Modelled from the spec: \<open>Vec3.inc\<close>, missing from the source files. It adds a
  vector to the receiver in place; the model returns the receiver's new value.\<close>

definition Vec3_inc_d :: "vec3_d \<Rightarrow> vec3_d \<Rightarrow> vec3_d" where
  "Vec3_inc_d this v =
     Vec3_d (add_d (d_x this) (d_x v)) (add_d (d_y this) (d_y v)) (add_d (d_z this) (d_z v))"

text \<open>Modelled from the spec: \<open>Vec3.dec\<close>, missing from the source files. It subtracts
  a vector from the receiver in place; the model returns the receiver's new value.\<close>

definition Vec3_dec_d :: "vec3_d \<Rightarrow> vec3_d \<Rightarrow> vec3_d" where
  "Vec3_dec_d this v =
     Vec3_d (sub_d (d_x this) (d_x v)) (sub_d (d_y this) (d_y v)) (sub_d (d_z this) (d_z v))"

fun coord_d :: "axis \<Rightarrow> vec3_d \<Rightarrow> double" where
  "coord_d AxisX v = d_x v"
| "coord_d AxisY v = d_y v"
| "coord_d AxisZ v = d_z v"

fun set_coord_d :: "axis \<Rightarrow> double \<Rightarrow> vec3_d \<Rightarrow> vec3_d" where
  "set_coord_d AxisX c (Vec3_d a b d) = Vec3_d c b d"
| "set_coord_d AxisY c (Vec3_d a b d) = Vec3_d a c d"
| "set_coord_d AxisZ c (Vec3_d a b d) = Vec3_d a b c"

subsection \<open>The four phases on doubles\<close>

record spring_d =
  p0_d :: int
  p1_d :: int
  rest_d :: double

record arrays_d =
  positions_d :: "vec3_d list"
  velocities_d :: "vec3_d list"
  springs_d :: "spring_d list"

text \<open>Lines 448 to 459.\<close>

definition spring_force_d ::
  "double \<Rightarrow> double \<Rightarrow> double \<Rightarrow> vec3_d \<Rightarrow> vec3_d \<Rightarrow> vec3_d \<Rightarrow> vec3_d \<Rightarrow> vec3_d" where
  "spring_force_d stiffness damping restLength pos_i pos_j vi vj =
     (let d = Vec3_sub_d pos_j pos_i;
          L = Vec3_len_d d;
          dir = Vec3_unit_d d;
          fs = Vec3_mul_d dir (mul_d stiffness (sub_d L restLength));
          vRel = Vec3_sub_d vj vi;
          fd = Vec3_mul_d dir (mul_d damping (Vec3_dot_d vRel dir))
      in Vec3_add_d fs fd)"

text \<open>Lines 440 to 462, with the throws of \<open>spring_body\<close>.\<close>

definition spring_body_d ::
  "vec3_d list \<Rightarrow> vec3_d list \<Rightarrow> double \<Rightarrow> double \<Rightarrow> spring_d \<Rightarrow> vec3_d list
     \<Rightarrow> error + vec3_d list" where
  "spring_body_d ps vs stiffness damping s forces =
     (let i = p0_d s; j = p1_d s in
      case (array_get ps i, array_get ps j, array_get vs i, array_get vs j) of
        (Some pos_i, Some pos_j, Some vi, Some vj) \<Rightarrow>
          (let f = spring_force_d stiffness damping (rest_d s) pos_i pos_j vi vj in
           case array_get forces i of
             None \<Rightarrow> Inl TypeError
           | Some fi \<Rightarrow>
               (let forces1 = forces[nat i := Vec3_inc_d fi f] in
                case array_get forces1 j of
                  None \<Rightarrow> Inl TypeError
                | Some fj \<Rightarrow> Inr (forces1[nat j := Vec3_dec_d fj f])))
      | _ \<Rightarrow> Inl TypeError)"

fun spring_loop_d ::
  "vec3_d list \<Rightarrow> vec3_d list \<Rightarrow> double \<Rightarrow> double \<Rightarrow> spring_d list \<Rightarrow> vec3_d list
     \<Rightarrow> error + vec3_d list" where
  "spring_loop_d ps vs stiffness damping [] forces = Inr forces"
| "spring_loop_d ps vs stiffness damping (s # ss) forces =
     (case spring_body_d ps vs stiffness damping s forces of
        Inl e \<Rightarrow> Inl e
      | Inr forces' \<Rightarrow> spring_loop_d ps vs stiffness damping ss forces')"

text \<open>Lines 466 to 470.\<close>

function integrate_loop_d ::
  "double \<Rightarrow> double \<Rightarrow> vec3_d list \<Rightarrow> nat \<Rightarrow> nat \<Rightarrow> arrays_d \<Rightarrow> error option \<times> arrays_d" where
  "integrate_loop_d dt particleMass forces numParticles i a =
     (if i < numParticles then
        (case array_get forces (int i) of
           None \<Rightarrow> (Some TypeError, a)
         | Some fi \<Rightarrow>
             (let acc = Vec3_div_d fi particleMass in
              case array_get (velocities_d a) (int i) of
                None \<Rightarrow> (Some TypeError, a)
              | Some vi \<Rightarrow>
                  (let vi' = Vec3_inc_d vi (Vec3_mul_d acc dt);
                       a1 = a\<lparr>velocities_d := (velocities_d a)[i := vi']\<rparr> in
                   case array_get (positions_d a1) (int i) of
                     None \<Rightarrow> (Some TypeError, a1)
                   | Some pos_i \<Rightarrow>
                       integrate_loop_d dt particleMass forces numParticles (Suc i)
                         (a1\<lparr>positions_d :=
                               (positions_d a1)[i := Vec3_inc_d pos_i (Vec3_mul_d vi' dt)]\<rparr>))))
      else (None, a))"
  by pat_completeness auto
termination
  by (relation "measure (\<lambda>(dt, particleMass, forces, numParticles, i, a). numParticles - i)") auto

declare integrate_loop_d.simps [simp del]

text \<open>
  Lines 475 to 486 for one particle and one \<open>dim\<close> (here \<open>ax\<close>):
  \<open>positions[i][dim] < -1\<close> is \<open>lt_d c (Finite (- 1))\<close> and \<open>positions[i][dim] > 1\<close> is
  \<open>lt_d (Finite 1) c\<close>; \<open>-velocities[i][dim] * restitution\<close> negates first.
\<close>

definition collide_dim_d :: "double \<Rightarrow> axis \<Rightarrow> vec3_d \<times> vec3_d \<Rightarrow> vec3_d \<times> vec3_d" where
  "collide_dim_d restitution ax pv =
     (let (p, v) = pv;
          (p, v) =
            (if lt_d (coord_d ax p) (Finite (- 1)) then
               (set_coord_d ax (Finite (- 1)) p,
                if lt_d (coord_d ax v) (Finite 0)
                then set_coord_d ax (mul_d (neg_d (coord_d ax v)) restitution) v else v)
             else (p, v));
          (p, v) =
            (if lt_d (Finite 1) (coord_d ax p) then
               (set_coord_d ax (Finite 1) p,
                if lt_d (Finite 0) (coord_d ax v)
                then set_coord_d ax (mul_d (neg_d (coord_d ax v)) restitution) v else v)
             else (p, v))
      in (p, v))"

definition collide_d :: "double \<Rightarrow> vec3_d \<times> vec3_d \<Rightarrow> vec3_d \<times> vec3_d" where
  "collide_d restitution pv = fold (collide_dim_d restitution) [AxisX, AxisY, AxisZ] pv"

text \<open>Lines 473 to 488; the fault branch is there for totality, as in \<open>collision_loop\<close>.\<close>

function collision_loop_d :: "double \<Rightarrow> nat \<Rightarrow> nat \<Rightarrow> arrays_d \<Rightarrow> error option \<times> arrays_d" where
  "collision_loop_d restitution numParticles i a =
     (if i < numParticles then
        (case (array_get (positions_d a) (int i), array_get (velocities_d a) (int i)) of
           (Some pos_i, Some vi) \<Rightarrow>
             (let (pos_i', vi') = collide_d restitution (pos_i, vi) in
              collision_loop_d restitution numParticles (Suc i)
                (a\<lparr>positions_d := (positions_d a)[i := pos_i'],
                   velocities_d := (velocities_d a)[i := vi']\<rparr>))
         | _ \<Rightarrow> (Some TypeError, a))
      else (None, a))"
  by pat_completeness auto
termination
  by (relation "measure (\<lambda>(restitution, numParticles, i, a). numParticles - i)") auto

declare collision_loop_d.simps [simp del]

definition init_forces_d :: "nat \<Rightarrow> vec3_d \<Rightarrow> double \<Rightarrow> vec3_d list" where
  "init_forces_d numParticles gravity particleMass =
     map (\<lambda>i. Vec3_mul_d gravity particleMass) [0..<numParticles]"

definition SimTimeStep_d ::
  "double \<Rightarrow> vec3_d list \<Rightarrow> vec3_d list \<Rightarrow> spring_d list \<Rightarrow> double \<Rightarrow> double \<Rightarrow> double
     \<Rightarrow> vec3_d \<Rightarrow> double \<Rightarrow> error option \<times> arrays_d" where
  "SimTimeStep_d dt ps vs sps stiffness damping particleMass gravity restitution =
     (let numParticles = length ps;
          a = \<lparr>positions_d = ps, velocities_d = vs, springs_d = sps\<rparr>
      in case spring_loop_d ps vs stiffness damping sps
                (init_forces_d numParticles gravity particleMass) of
           Inl e \<Rightarrow> (Some e, a)
         | Inr forces \<Rightarrow>
             (case integrate_loop_d dt particleMass forces numParticles 0 a of
                (Some e, a1) \<Rightarrow> (Some e, a1)
              | (None, a1) \<Rightarrow> collision_loop_d restitution numParticles 0 a1))"

section \<open>Vector components, array reads and the spring loop\<close>

lemma coord_Vec3 [simp]:
  "coord AxisX (Vec3 a b c) = a" "coord AxisY (Vec3 a b c) = b" "coord AxisZ (Vec3 a b c) = c"
  by simp_all

lemma coord_Vec3_mul [simp]: "coord a (Vec3_mul v f) = coord a v * f"
  by (cases a) (simp_all add: Vec3_mul_def)

lemma coord_Vec3_div [simp]: "coord a (Vec3_div v f) = coord a v / f"
  by (cases a) (simp_all add: Vec3_div_def)

lemma coord_Vec3_add [simp]: "coord a (Vec3_add v w) = coord a v + coord a w"
  by (cases a) (simp_all add: Vec3_add_def)

lemma coord_Vec3_sub [simp]: "coord a (Vec3_sub v w) = coord a v - coord a w"
  by (cases a) (simp_all add: Vec3_sub_def)

lemma coord_Vec3_inc [simp]: "coord a (Vec3_inc v w) = coord a v + coord a w"
  by (cases a) (simp_all add: Vec3_inc_def)

lemma coord_Vec3_dec [simp]: "coord a (Vec3_dec v w) = coord a v - coord a w"
  by (cases a) (simp_all add: Vec3_dec_def)

lemma coord_set_coord [simp]: "coord a (set_coord b c v) = (if a = b then c else coord a v)"
  by (cases v; cases a; cases b) simp_all

lemma vec3_eqI: "(\<And>a. coord a v = coord a w) \<Longrightarrow> v = w"
proof -
  assume h: "\<And>a. coord a v = coord a w"
  from h [of AxisX] h [of AxisY] h [of AxisZ] show ?thesis
    by (simp add: vec3.expand)
qed

lemma array_get_in [simp]: "0 \<le> i \<Longrightarrow> i < int (length xs) \<Longrightarrow> array_get xs i = Some (xs ! nat i)"
  by (simp add: array_get_def)

lemma array_get_nat [simp]: "array_get xs (int n) = (if n < length xs then Some (xs ! n) else None)"
  by (simp add: array_get_def)

lemma array_get_None_iff: "array_get xs i = None \<longleftrightarrow> \<not> (0 \<le> i \<and> i < int (length xs))"
  by (simp add: array_get_def)

lemma spring_body_valid:
  assumes v: "spring_valid ps vs s" and len: "length forces = length ps"
  shows "\<exists>forces'. spring_body ps vs stiffness damping s forces = Inr forces'
           \<and> length forces' = length forces
           \<and> (\<forall>n<length forces. \<forall>a. coord a (forces' ! n)
                 = coord a (forces ! n) + contribution ps vs stiffness damping s n a)"
proof -
  from v len have i: "0 \<le> p0 s" "nat (p0 s) < length forces" "p0 s < int (length forces)"
    and j: "0 \<le> p1 s" "nat (p1 s) < length forces" "p1 s < int (length forces)"
    by (auto simp: spring_valid_def)
  from v have g: "array_get ps (p0 s) = Some (ps ! nat (p0 s))"
    "array_get ps (p1 s) = Some (ps ! nat (p1 s))"
    "array_get vs (p0 s) = Some (vs ! nat (p0 s))"
    "array_get vs (p1 s) = Some (vs ! nat (p1 s))"
    by (simp_all add: spring_valid_def)
  define f where "f = spring_f ps vs stiffness damping s"
  define forces1 where "forces1 = forces[nat (p0 s) := Vec3_inc (forces ! nat (p0 s)) f]"
  define forces2 where "forces2 = forces1[nat (p1 s) := Vec3_dec (forces1 ! nat (p1 s)) f]"
  have l1: "length forces1 = length forces" by (simp add: forces1_def)
  have b: "spring_body ps vs stiffness damping s forces = Inr forces2"
    using i j l1 by (simp add: spring_body_def g Let_def f_def spring_f_def forces1_def forces2_def)
  have "coord a (forces2 ! n) = coord a (forces ! n) + contribution ps vs stiffness damping s n a"
    if "n < length forces" for n a
    using that i j l1
    by (simp add: forces2_def forces1_def contribution_def f_def nth_list_update)
  with b l1 show ?thesis by (simp add: forces2_def)
qed

lemma spring_body_invalid:
  assumes "\<not> spring_valid ps vs s"
  shows "spring_body ps vs stiffness damping s forces = Inl TypeError"
  using assms
  by (auto simp: spring_body_def spring_valid_def Let_def array_get_def split: option.splits)


lemma spring_loop_valid:
  assumes "\<forall>s\<in>set sps. spring_valid ps vs s" and "length forces = length ps"
  shows "\<exists>forces'. spring_loop ps vs stiffness damping sps forces = Inr forces'
           \<and> length forces' = length forces
           \<and> (\<forall>n<length forces. \<forall>a. coord a (forces' ! n)
                 = coord a (forces ! n) + (\<Sum>s\<leftarrow>sps. contribution ps vs stiffness damping s n a))"
  using assms
proof (induction sps arbitrary: forces)
  case Nil
  then show ?case by simp
next
  case (Cons s ss)
  from Cons.prems have v: "spring_valid ps vs s" and vs: "\<forall>s\<in>set ss. spring_valid ps vs s"
    by simp_all
  from spring_body_valid [OF v Cons.prems(2), of stiffness damping]
  obtain f1 where f1: "spring_body ps vs stiffness damping s forces = Inr f1"
    "length f1 = length forces"
    "\<forall>n<length forces. \<forall>a. coord a (f1 ! n)
        = coord a (forces ! n) + contribution ps vs stiffness damping s n a"
    by blast
  from f1(2) Cons.prems(2) have "length f1 = length ps" by simp
  from Cons.IH [OF vs this]
  obtain f2 where f2: "spring_loop ps vs stiffness damping ss f1 = Inr f2"
    "length f2 = length f1"
    "\<forall>n<length f1. \<forall>a. coord a (f2 ! n)
        = coord a (f1 ! n) + (\<Sum>s\<leftarrow>ss. contribution ps vs stiffness damping s n a)"
    by blast
  show ?case using f1 f2 by simp
qed

lemma spring_loop_invalid:
  assumes "\<exists>s\<in>set sps. \<not> spring_valid ps vs s"
  shows "spring_loop ps vs stiffness damping sps forces = Inl TypeError"
  using assms
proof (induction sps arbitrary: forces)
  case Nil
  then show ?case by simp
next
  case (Cons s ss)
  show ?case
  proof (cases "spring_body ps vs stiffness damping s forces")
    case (Inl e)
    then show ?thesis by (cases e) simp
  next
    case (Inr f1)
    with spring_body_invalid [of ps vs s stiffness damping forces]
    have "spring_valid ps vs s" by auto
    with Cons.prems have "\<exists>s\<in>set ss. \<not> spring_valid ps vs s" by simp
    from Cons.IH [OF this] Inr show ?thesis by simp
  qed
qed

section \<open>Collisions and integration, particle by particle\<close>

lemma collide_dim_fst:
  "coord a (fst (collide_dim r b (p, v))) = (if a = b then clamp_pos (coord b p) else coord a p)"
  by (simp add: collide_dim_def clamp_pos_def Let_def split: prod.splits)

lemma collide_dim_snd:
  "coord a (snd (collide_dim r b (p, v))) =
     (if a = b then bounce_vel r (coord b p) (coord b v) else coord a v)"
  by (simp add: collide_dim_def bounce_vel_def Let_def split: prod.splits)

lemma collide_fst: "coord a (fst (collide r (p, v))) = clamp_pos (coord a p)"
proof -
  obtain p1 v1 where 1: "collide_dim r AxisX (p, v) = (p1, v1)" by force
  obtain p2 v2 where 2: "collide_dim r AxisY (p1, v1) = (p2, v2)" by force
  obtain p3 v3 where 3: "collide_dim r AxisZ (p2, v2) = (p3, v3)" by force
  have c: "collide r (p, v) = (p3, v3)" by (simp add: collide_def 1 2 3)
  from collide_dim_fst [of a r AxisX p v] 1
  have e1: "coord a p1 = (if a = AxisX then clamp_pos (coord AxisX p) else coord a p)" by simp
  from collide_dim_fst [of a r AxisY p1 v1] 2
  have e2: "coord a p2 = (if a = AxisY then clamp_pos (coord AxisY p1) else coord a p1)" by simp
  from collide_dim_fst [of a r AxisZ p2 v2] 3
  have e3: "coord a p3 = (if a = AxisZ then clamp_pos (coord AxisZ p2) else coord a p2)" by simp
  from collide_dim_fst [of AxisY r AxisX p v] 1 have y1: "coord AxisY p1 = coord AxisY p" by simp
  from collide_dim_fst [of AxisZ r AxisX p v] 1 have z1: "coord AxisZ p1 = coord AxisZ p" by simp
  from collide_dim_fst [of AxisZ r AxisY p1 v1] 2 have z2: "coord AxisZ p2 = coord AxisZ p1" by simp
  show ?thesis unfolding c using e1 e2 e3 y1 z1 z2 by (cases a) simp_all
qed

lemma collide_snd:
  "coord a (snd (collide r (p, v))) = bounce_vel r (coord a p) (coord a v)"
proof -
  obtain p1 v1 where 1: "collide_dim r AxisX (p, v) = (p1, v1)" by force
  obtain p2 v2 where 2: "collide_dim r AxisY (p1, v1) = (p2, v2)" by force
  obtain p3 v3 where 3: "collide_dim r AxisZ (p2, v2) = (p3, v3)" by force
  have c: "collide r (p, v) = (p3, v3)" by (simp add: collide_def 1 2 3)
  have p1: "coord b p1 = (if b = AxisX then clamp_pos (coord AxisX p) else coord b p)" for b
    using collide_dim_fst [of b r AxisX p v] 1 by simp
  have p2: "coord b p2 = (if b = AxisY then clamp_pos (coord AxisY p1) else coord b p1)" for b
    using collide_dim_fst [of b r AxisY p1 v1] 2 by simp
  have v1: "coord b v1 = (if b = AxisX then bounce_vel r (coord AxisX p) (coord AxisX v) else coord b v)" for b
    using collide_dim_snd [of b r AxisX p v] 1 by simp
  have v2: "coord b v2 = (if b = AxisY then bounce_vel r (coord AxisY p1) (coord AxisY v1) else coord b v1)" for b
    using collide_dim_snd [of b r AxisY p1 v1] 2 by simp
  have v3: "coord b v3 = (if b = AxisZ then bounce_vel r (coord AxisZ p2) (coord AxisZ v2) else coord b v2)" for b
    using collide_dim_snd [of b r AxisZ p2 v2] 3 by simp
  show ?thesis unfolding c by (cases a) (simp_all add: p1 p2 v1 v2 v3)
qed

lemma clamp_pos_bounds: "- 1 \<le> clamp_pos c \<and> clamp_pos c \<le> 1"
  by (simp add: clamp_pos_def)

lemma integrate_loop_frame:
  "springs (snd (integrate_loop dt m forces n i a)) = springs a
   \<and> length (positions (snd (integrate_loop dt m forces n i a))) = length (positions a)
   \<and> length (velocities (snd (integrate_loop dt m forces n i a))) = length (velocities a)"
proof (induction "n - i" arbitrary: i a)
  case 0
  then show ?case by (simp add: integrate_loop.simps)
next
  case (Suc k)
  then have lt: "i < n" and k: "k = n - Suc i" by simp_all
  show ?case
    using lt Suc.hyps(1) [OF k]
    by (subst (1 2 3) integrate_loop.simps) (simp add: Let_def split: option.splits)
qed

lemma integrate_loop_normal:
  assumes "n \<le> length forces" "n \<le> length (velocities a)" "n \<le> length (positions a)"
  shows "\<exists>a'. integrate_loop dt m forces n i a = (None, a')
           \<and> (\<forall>k<length (velocities a). velocities a' ! k =
                 (if i \<le> k \<and> k < n then new_velocity dt m (forces ! k) (velocities a ! k)
                  else velocities a ! k))
           \<and> (\<forall>k<length (positions a). positions a' ! k =
                 (if i \<le> k \<and> k < n
                  then new_position dt m (forces ! k) (velocities a ! k) (positions a ! k)
                  else positions a ! k))"
  using assms
proof (induction "n - i" arbitrary: i a)
  case 0
  then show ?case by (auto simp: integrate_loop.simps)
next
  case (Suc j)
  then have lt: "i < n" and j: "j = n - Suc i" by simp_all
  define vi' where "vi' = new_velocity dt m (forces ! i) (velocities a ! i)"
  define a2 where "a2 = a\<lparr>velocities := (velocities a)[i := vi'],
     positions := (positions a)[i := Vec3_inc (positions a ! i) (Vec3_mul vi' dt)]\<rparr>"
  have step: "integrate_loop dt m forces n i a = integrate_loop dt m forces n (Suc i) a2"
    using lt Suc.prems
    by (subst integrate_loop.simps) (simp add: Let_def a2_def vi'_def new_velocity_def)
  have l2: "n \<le> length (velocities a2)" "n \<le> length (positions a2)"
    using Suc.prems by (simp_all add: a2_def)
  from Suc.hyps(1) [OF j Suc.prems(1) l2]
  obtain a' where a': "integrate_loop dt m forces n (Suc i) a2 = (None, a')"
    "\<forall>k<length (velocities a2). velocities a' ! k =
        (if Suc i \<le> k \<and> k < n then new_velocity dt m (forces ! k) (velocities a2 ! k)
         else velocities a2 ! k)"
    "\<forall>k<length (positions a2). positions a' ! k =
        (if Suc i \<le> k \<and> k < n
         then new_position dt m (forces ! k) (velocities a2 ! k) (positions a2 ! k)
         else positions a2 ! k)"
    by blast
  have v: "velocities a' ! k =
      (if i \<le> k \<and> k < n then new_velocity dt m (forces ! k) (velocities a ! k)
       else velocities a ! k)" if "k < length (velocities a)" for k
    using a'(2) that lt by (cases "k = i") (simp_all add: a2_def vi'_def)
  have p: "positions a' ! k =
      (if i \<le> k \<and> k < n
       then new_position dt m (forces ! k) (velocities a ! k) (positions a ! k)
       else positions a ! k)" if "k < length (positions a)" for k
    using a'(3) that lt
    by (cases "k = i") (simp_all add: a2_def vi'_def new_position_def)
  show ?case using step a'(1) v p by simp
qed

lemma integrate_loop_completes_iff:
  "fst (integrate_loop dt m forces n i a) = None \<longleftrightarrow>
     (i < n \<longrightarrow> n \<le> length forces \<and> n \<le> length (velocities a) \<and> n \<le> length (positions a))"
proof (induction "n - i" arbitrary: i a)
  case 0
  then show ?case by (simp add: integrate_loop.simps)
next
  case (Suc j)
  then have lt: "i < n" and j: "j = n - Suc i" by simp_all
  show ?case
    using lt Suc.hyps(1) [OF j]
    by (subst integrate_loop.simps) (auto simp: Let_def split: option.splits)
qed

section \<open>The collision loop and the whole step\<close>

lemma collision_loop_frame:
  "springs (snd (collision_loop r n i a)) = springs a
   \<and> length (positions (snd (collision_loop r n i a))) = length (positions a)
   \<and> length (velocities (snd (collision_loop r n i a))) = length (velocities a)"
proof (induction "n - i" arbitrary: i a)
  case 0
  then show ?case by (simp add: collision_loop.simps)
next
  case (Suc k)
  then have lt: "i < n" and k: "k = n - Suc i" by simp_all
  show ?case
    using lt Suc.hyps(1) [OF k]
    by (subst (1 2 3) collision_loop.simps) (simp add: Let_def split: option.splits prod.splits)
qed

lemma collision_loop_normal:
  assumes "n \<le> length (positions a)" "n \<le> length (velocities a)"
  shows "\<exists>a'. collision_loop r n i a = (None, a')
           \<and> (\<forall>k<length (positions a). positions a' ! k =
                 (if i \<le> k \<and> k < n then fst (collide r (positions a ! k, velocities a ! k))
                  else positions a ! k))
           \<and> (\<forall>k<length (velocities a). velocities a' ! k =
                 (if i \<le> k \<and> k < n then snd (collide r (positions a ! k, velocities a ! k))
                  else velocities a ! k))"
  using assms
proof (induction "n - i" arbitrary: i a)
  case 0
  then show ?case by (auto simp: collision_loop.simps)
next
  case (Suc j)
  then have lt: "i < n" and j: "j = n - Suc i" by simp_all
  define c where "c = collide r (positions a ! i, velocities a ! i)"
  define a2 where "a2 = a\<lparr>positions := (positions a)[i := fst c],
     velocities := (velocities a)[i := snd c]\<rparr>"
  have step: "collision_loop r n i a = collision_loop r n (Suc i) a2"
    using lt Suc.prems
    by (subst collision_loop.simps) (simp add: Let_def a2_def c_def split: prod.splits)
  have l2: "n \<le> length (positions a2)" "n \<le> length (velocities a2)"
    using Suc.prems by (simp_all add: a2_def)
  from Suc.hyps(1) [OF j l2]
  obtain a' where a': "collision_loop r n (Suc i) a2 = (None, a')"
    "\<forall>k<length (positions a2). positions a' ! k =
        (if Suc i \<le> k \<and> k < n then fst (collide r (positions a2 ! k, velocities a2 ! k))
         else positions a2 ! k)"
    "\<forall>k<length (velocities a2). velocities a' ! k =
        (if Suc i \<le> k \<and> k < n then snd (collide r (positions a2 ! k, velocities a2 ! k))
         else velocities a2 ! k)"
    by blast
  have p: "positions a' ! k =
      (if i \<le> k \<and> k < n then fst (collide r (positions a ! k, velocities a ! k))
       else positions a ! k)" if "k < length (positions a)" for k
    using a'(2) that lt by (cases "k = i") (simp_all add: a2_def c_def)
  have v: "velocities a' ! k =
      (if i \<le> k \<and> k < n then snd (collide r (positions a ! k, velocities a ! k))
       else velocities a ! k)" if "k < length (velocities a)" for k
    using a'(3) that lt by (cases "k = i") (simp_all add: a2_def c_def)
  show ?case using step a'(1) p v by simp
qed

lemma init_forces_length [simp]: "length (init_forces n g m) = n"
  by (simp add: init_forces_def)

lemma init_forces_nth [simp]: "k < n \<Longrightarrow> init_forces n g m ! k = Vec3_mul g m"
  by (simp add: init_forces_def)


lemma spring_loop_Inr_iff:
  "(\<exists>forces'. spring_loop ps vs stiffness damping sps forces = Inr forces') \<longleftrightarrow>
     (\<forall>s\<in>set sps. spring_valid ps vs s)" if "length forces = length ps"
proof
  assume "\<exists>forces'. spring_loop ps vs stiffness damping sps forces = Inr forces'"
  then show "\<forall>s\<in>set sps. spring_valid ps vs s"
    using spring_loop_invalid [of sps ps vs stiffness damping forces] by fastforce
next
  assume "\<forall>s\<in>set sps. spring_valid ps vs s"
  from spring_loop_valid [OF this that] show "\<exists>forces'. spring_loop ps vs stiffness damping sps forces = Inr forces'"
    by blast
qed

lemma SimTimeStep_frame:
  "springs (snd (SimTimeStep dt ps vs sps k c m g r)) = sps
   \<and> length (positions (snd (SimTimeStep dt ps vs sps k c m g r))) = length ps
   \<and> length (velocities (snd (SimTimeStep dt ps vs sps k c m g r))) = length vs"
proof (cases "spring_loop ps vs k c sps (init_forces (length ps) g m)")
  case (Inl e)
  then show ?thesis by (simp add: SimTimeStep_def)
next
  case (Inr forces)
  define a where "a = \<lparr>positions = ps, velocities = vs, springs = sps\<rparr>"
  obtain e a1 where i: "integrate_loop dt m forces (length ps) 0 a = (e, a1)" by force
  from integrate_loop_frame [of dt m forces "length ps" 0 a] i
  have f1: "springs a1 = sps" "length (positions a1) = length ps" "length (velocities a1) = length vs"
    by (simp_all add: a_def)
  show ?thesis
  proof (cases e)
    case None
    with Inr i f1 collision_loop_frame [of r "length ps" 0 a1] show ?thesis
      by (simp add: SimTimeStep_def a_def [symmetric])
  next
    case (Some err)
    with Inr i f1 show ?thesis
      by (simp add: SimTimeStep_def a_def [symmetric])
  qed
qed

lemma SimTimeStep_normal:
  assumes valid: "\<forall>s\<in>set sps. spring_valid ps vs s" and len: "length ps \<le> length vs"
  shows "\<exists>forces a'.
      spring_loop ps vs k c sps (init_forces (length ps) g m) = Inr forces
    \<and> length forces = length ps
    \<and> SimTimeStep dt ps vs sps k c m g r = (None, a')
    \<and> (\<forall>n<length ps.
          positions a' ! n = fst (collide r (new_position dt m (forces ! n) (vs ! n) (ps ! n),
                                            new_velocity dt m (forces ! n) (vs ! n)))
        \<and> velocities a' ! n = snd (collide r (new_position dt m (forces ! n) (vs ! n) (ps ! n),
                                             new_velocity dt m (forces ! n) (vs ! n))))
    \<and> (\<forall>n<length vs. length ps \<le> n \<longrightarrow> velocities a' ! n = vs ! n)"
proof -
  define a where "a = \<lparr>positions = ps, velocities = vs, springs = sps\<rparr>"
  from spring_loop_valid [OF valid, of "init_forces (length ps) g m" k c]
  obtain forces where f: "spring_loop ps vs k c sps (init_forces (length ps) g m) = Inr forces"
    "length forces = length ps"
    by auto
  have "length ps \<le> length forces" "length ps \<le> length (velocities a)"
    "length ps \<le> length (positions a)"
    using f(2) len by (simp_all add: a_def)
  from integrate_loop_normal [OF this, of dt m 0]
  obtain a1 where a1: "integrate_loop dt m forces (length ps) 0 a = (None, a1)"
    "\<forall>n<length vs. velocities a1 ! n =
        (if n < length ps then new_velocity dt m (forces ! n) (vs ! n) else vs ! n)"
    "\<forall>n<length ps. positions a1 ! n = new_position dt m (forces ! n) (vs ! n) (ps ! n)"
    by (auto simp: a_def)
  from integrate_loop_frame [of dt m forces "length ps" 0 a] a1(1)
  have l1: "length (positions a1) = length ps" "length (velocities a1) = length vs"
    by (simp_all add: a_def)
  then have "length ps \<le> length (positions a1)" "length ps \<le> length (velocities a1)"
    using len by simp_all
  from collision_loop_normal [OF this, of r 0]
  obtain a' where a': "collision_loop r (length ps) 0 a1 = (None, a')"
    "\<forall>n<length ps. positions a' ! n = fst (collide r (positions a1 ! n, velocities a1 ! n))"
    "\<forall>n<length vs. velocities a' ! n =
        (if n < length ps then snd (collide r (positions a1 ! n, velocities a1 ! n))
         else velocities a1 ! n)"
    by (auto simp: l1)
  have s: "SimTimeStep dt ps vs sps k c m g r = (None, a')"
    using f(1) a1(1) a'(1) by (simp add: SimTimeStep_def a_def [symmetric])
  have "positions a' ! n = fst (collide r (new_position dt m (forces ! n) (vs ! n) (ps ! n),
                                            new_velocity dt m (forces ! n) (vs ! n)))
        \<and> velocities a' ! n = snd (collide r (new_position dt m (forces ! n) (vs ! n) (ps ! n),
                                             new_velocity dt m (forces ! n) (vs ! n)))"
    if "n < length ps" for n
    using that len a'(2,3) a1(2,3) by simp
  moreover have "velocities a' ! n = vs ! n" if "n < length vs" "length ps \<le> n" for n
    using that a'(3) a1(2) by simp
  ultimately show ?thesis using f s by blast
qed

lemma SimTimeStep_completes_iff:
  "fst (SimTimeStep dt ps vs sps k c m g r) = None \<longleftrightarrow>
     (\<forall>s\<in>set sps. spring_valid ps vs s) \<and> length ps \<le> length vs"
proof
  assume "(\<forall>s\<in>set sps. spring_valid ps vs s) \<and> length ps \<le> length vs"
  then have "\<forall>s\<in>set sps. spring_valid ps vs s" "length ps \<le> length vs" by simp_all
  from SimTimeStep_normal [OF this, of k c g m dt r]
  show "fst (SimTimeStep dt ps vs sps k c m g r) = None" by auto
next
  assume n: "fst (SimTimeStep dt ps vs sps k c m g r) = None"
  define a where "a = \<lparr>positions = ps, velocities = vs, springs = sps\<rparr>"
  show "(\<forall>s\<in>set sps. spring_valid ps vs s) \<and> length ps \<le> length vs"
  proof (cases "spring_loop ps vs k c sps (init_forces (length ps) g m)")
    case (Inl e)
    with n show ?thesis by (simp add: SimTimeStep_def)
  next
    case (Inr forces)
    then have v: "\<forall>s\<in>set sps. spring_valid ps vs s"
      using spring_loop_Inr_iff [of "init_forces (length ps) g m" ps vs k c sps] by auto
    obtain e a1 where i: "integrate_loop dt m forces (length ps) 0 a = (e, a1)" by force
    have "e = None"
      using n Inr i by (cases e) (simp_all add: SimTimeStep_def a_def [symmetric])
    with i integrate_loop_completes_iff [of dt m forces "length ps" 0 a]
    have "0 < length ps \<longrightarrow> length ps \<le> length vs" by (simp add: a_def)
    then have "length ps \<le> length vs" by (cases "length ps") simp_all
    with v show ?thesis by simp
  qed
qed

section \<open>Independence of the spring order\<close>

lemma integrate_loop_cong:
  assumes "positions a = positions b" "velocities a = velocities b"
  shows "fst (integrate_loop dt m forces n i a) = fst (integrate_loop dt m forces n i b)
       \<and> positions (snd (integrate_loop dt m forces n i a))
           = positions (snd (integrate_loop dt m forces n i b))
       \<and> velocities (snd (integrate_loop dt m forces n i a))
           = velocities (snd (integrate_loop dt m forces n i b))"
  using assms
proof (induction "n - i" arbitrary: i a b)
  case 0
  then show ?case by (simp add: integrate_loop.simps)
next
  case (Suc j)
  then have lt: "i < n" and j: "j = n - Suc i" by simp_all
  show ?case
  proof (cases "i < length forces \<and> i < length (velocities a) \<and> i < length (positions a)")
    case True
    define vi' where "vi' = Vec3_inc (velocities a ! i) (Vec3_mul (Vec3_div (forces ! i) m) dt)"
    define pi' where "pi' = Vec3_inc (positions a ! i) (Vec3_mul vi' dt)"
    define a2 where "a2 = a\<lparr>velocities := (velocities a)[i := vi'],
      positions := (positions a)[i := pi']\<rparr>"
    define b2 where "b2 = b\<lparr>velocities := (velocities b)[i := vi'],
      positions := (positions b)[i := pi']\<rparr>"
    have sa: "integrate_loop dt m forces n i a = integrate_loop dt m forces n (Suc i) a2"
      using lt True
      by (subst integrate_loop.simps) (simp add: Let_def a2_def vi'_def pi'_def)
    have sb: "integrate_loop dt m forces n i b = integrate_loop dt m forces n (Suc i) b2"
      using lt True Suc.prems
      by (subst integrate_loop.simps) (simp add: Let_def b2_def vi'_def pi'_def)
    have "positions a2 = positions b2" "velocities a2 = velocities b2"
      using Suc.prems by (simp_all add: a2_def b2_def)
    from Suc.hyps(1) [OF j this] show ?thesis by (simp add: sa sb)
  next
    case False
    with lt Suc.prems show ?thesis
      by (subst (1 2 3 4 5 6) integrate_loop.simps) (auto simp: Let_def split: option.splits)
  qed
qed

lemma collision_loop_cong:
  assumes "positions a = positions b" "velocities a = velocities b"
  shows "fst (collision_loop r n i a) = fst (collision_loop r n i b)
       \<and> positions (snd (collision_loop r n i a)) = positions (snd (collision_loop r n i b))
       \<and> velocities (snd (collision_loop r n i a)) = velocities (snd (collision_loop r n i b))"
  using assms
proof (induction "n - i" arbitrary: i a b)
  case 0
  then show ?case by (simp add: collision_loop.simps)
next
  case (Suc j)
  then have lt: "i < n" and j: "j = n - Suc i" by simp_all
  show ?case
  proof (cases "i < length (velocities a) \<and> i < length (positions a)")
    case True
    define cl where "cl = collide r (positions a ! i, velocities a ! i)"
    define a2 where "a2 = a\<lparr>positions := (positions a)[i := fst cl],
      velocities := (velocities a)[i := snd cl]\<rparr>"
    define b2 where "b2 = b\<lparr>positions := (positions b)[i := fst cl],
      velocities := (velocities b)[i := snd cl]\<rparr>"
    have sa: "collision_loop r n i a = collision_loop r n (Suc i) a2"
      using lt True
      by (subst collision_loop.simps) (simp add: Let_def a2_def cl_def split: prod.splits)
    have sb: "collision_loop r n i b = collision_loop r n (Suc i) b2"
      using lt True Suc.prems
      by (subst collision_loop.simps) (simp add: Let_def b2_def cl_def split: prod.splits)
    have "positions a2 = positions b2" "velocities a2 = velocities b2"
      using Suc.prems by (simp_all add: a2_def b2_def)
    from Suc.hyps(1) [OF j this] show ?thesis by (simp add: sa sb)
  next
    case False
    with lt Suc.prems show ?thesis
      by (subst (1 2 3 4 5 6) collision_loop.simps) (auto simp: Let_def split: option.splits)
  qed
qed

lemma SimTimeStep_springs_only_through_forces:
  assumes "spring_loop ps vs k c sps (init_forces (length ps) g m)
         = spring_loop ps vs k c sps' (init_forces (length ps) g m)"
  shows "fst (SimTimeStep dt ps vs sps k c m g r) = fst (SimTimeStep dt ps vs sps' k c m g r)
       \<and> positions (snd (SimTimeStep dt ps vs sps k c m g r))
           = positions (snd (SimTimeStep dt ps vs sps' k c m g r))
       \<and> velocities (snd (SimTimeStep dt ps vs sps k c m g r))
           = velocities (snd (SimTimeStep dt ps vs sps' k c m g r))"
proof (cases "spring_loop ps vs k c sps (init_forces (length ps) g m)")
  case (Inl e)
  moreover from Inl assms
  have "spring_loop ps vs k c sps' (init_forces (length ps) g m) = Inl e" by simp
  ultimately show ?thesis by (simp add: SimTimeStep_def)
next
  case (Inr forces)
  from Inr assms
  have Inr': "spring_loop ps vs k c sps' (init_forces (length ps) g m) = Inr forces" by simp
  define a where "a = \<lparr>positions = ps, velocities = vs, springs = sps\<rparr>"
  define b where "b = \<lparr>positions = ps, velocities = vs, springs = sps'\<rparr>"
  have ab: "positions a = positions b" "velocities a = velocities b"
    by (simp_all add: a_def b_def)
  obtain e a1 where ia: "integrate_loop dt m forces (length ps) 0 a = (e, a1)" by force
  obtain e' b1 where ib: "integrate_loop dt m forces (length ps) 0 b = (e', b1)" by force
  from integrate_loop_cong [OF ab, of dt m forces "length ps" 0] ia ib
  have eq: "e = e'" "positions a1 = positions b1" "velocities a1 = velocities b1"
    by simp_all
  show ?thesis
  proof (cases e)
    case None
    with Inr Inr' ia ib eq collision_loop_cong [OF eq(2,3), of r "length ps" 0] show ?thesis
      by (auto simp: SimTimeStep_def a_def [symmetric] b_def [symmetric])
  next
    case (Some err)
    with Inr Inr' ia ib eq show ?thesis
      by (auto simp: SimTimeStep_def a_def [symmetric] b_def [symmetric])
  qed
qed





lemma sum_list_contribution_perm:
  assumes "mset sps = mset sps'"
  shows "(\<Sum>s\<leftarrow>sps. contribution ps vs k c s n a) = (\<Sum>s\<leftarrow>sps'. contribution ps vs k c s n a)"
proof -
  have "mset (map (\<lambda>s. contribution ps vs k c s n a) sps)
      = mset (map (\<lambda>s. contribution ps vs k c s n a) sps')"
    using assms by (metis mset_map)
  then show ?thesis by (metis sum_mset_sum_list)
qed

lemma spring_loop_perm:
  assumes p: "mset sps = mset sps'" and len: "length forces = length ps"
  shows "spring_loop ps vs k c sps forces = spring_loop ps vs k c sps' forces"
proof (cases "\<forall>s\<in>set sps. spring_valid ps vs s")
  case True
  from p have "set sps = set sps'" by (rule mset_eq_setD)
  with True have True': "\<forall>s\<in>set sps'. spring_valid ps vs s" by simp
  from spring_loop_valid [OF True len, of k c]
  obtain f1 where f1: "spring_loop ps vs k c sps forces = Inr f1" "length f1 = length forces"
    "\<forall>n<length forces. \<forall>a. coord a (f1 ! n)
        = coord a (forces ! n) + (\<Sum>s\<leftarrow>sps. contribution ps vs k c s n a)"
    by blast
  from spring_loop_valid [OF True' len, of k c]
  obtain f2 where f2: "spring_loop ps vs k c sps' forces = Inr f2" "length f2 = length forces"
    "\<forall>n<length forces. \<forall>a. coord a (f2 ! n)
        = coord a (forces ! n) + (\<Sum>s\<leftarrow>sps'. contribution ps vs k c s n a)"
    by blast
  have "f1 = f2"
  proof (rule nth_equalityI)
    show "length f1 = length f2" using f1(2) f2(2) by simp
  next
    fix n assume "n < length f1"
    then have n: "n < length forces" using f1(2) by simp
    show "f1 ! n = f2 ! n"
    proof (rule vec3_eqI)
      fix a
      show "coord a (f1 ! n) = coord a (f2 ! n)"
        using f1(3) f2(3) n sum_list_contribution_perm [OF p, of ps vs k c n a] by simp
    qed
  qed
  with f1(1) f2(1) show ?thesis by simp
next
  case False
  from p have "set sps = set sps'" by (rule mset_eq_setD)
  with False have False': "\<exists>s\<in>set sps'. \<not> spring_valid ps vs s" by simp
  from False have "\<exists>s\<in>set sps. \<not> spring_valid ps vs s" by simp
  from spring_loop_invalid [OF this] spring_loop_invalid [OF False']
  show ?thesis by simp
qed

section \<open>The collision loop on doubles\<close>

lemma coord_set_coord_d [simp]:
  "coord_d a (set_coord_d b c v) = (if a = b then c else coord_d a v)"
  by (cases v; cases a; cases b) simp_all

lemma collide_dim_d_other:
  "a \<noteq> b \<Longrightarrow> coord_d a (fst (collide_dim_d r b (p, v))) = coord_d a p"
  by (simp add: collide_dim_d_def Let_def split: prod.splits)

lemma collide_dim_d_same:
  "coord_d b (fst (collide_dim_d r b (p, v))) = NaN
   \<or> within_box (coord_d b (fst (collide_dim_d r b (p, v))))"
proof (cases "coord_d b p")
  case (Finite c)
  then show ?thesis
    by (simp add: collide_dim_d_def Let_def within_box_def split: prod.splits)
next
  case PosInf
  then show ?thesis
    by (simp add: collide_dim_d_def Let_def within_box_def split: prod.splits)
next
  case NegInf
  then show ?thesis
    by (simp add: collide_dim_d_def Let_def within_box_def split: prod.splits)
next
  case NaN
  then show ?thesis
    by (simp add: collide_dim_d_def Let_def split: prod.splits)
qed

lemma collide_d_coord:
  "coord_d a (fst (collide_d r (p, v))) = NaN \<or> within_box (coord_d a (fst (collide_d r (p, v))))"
proof -
  obtain p1 v1 where 1: "collide_dim_d r AxisX (p, v) = (p1, v1)" by force
  obtain p2 v2 where 2: "collide_dim_d r AxisY (p1, v1) = (p2, v2)" by force
  obtain p3 v3 where 3: "collide_dim_d r AxisZ (p2, v2) = (p3, v3)" by force
  have c: "collide_d r (p, v) = (p3, v3)" by (simp add: collide_d_def 1 2 3)
  have x1: "coord_d AxisX p1 = NaN \<or> within_box (coord_d AxisX p1)"
    using collide_dim_d_same [of AxisX r p v] 1 by simp
  have y2: "coord_d AxisY p2 = NaN \<or> within_box (coord_d AxisY p2)"
    using collide_dim_d_same [of AxisY r p1 v1] 2 by simp
  have z3: "coord_d AxisZ p3 = NaN \<or> within_box (coord_d AxisZ p3)"
    using collide_dim_d_same [of AxisZ r p2 v2] 3 by simp
  have x2: "coord_d AxisX p2 = coord_d AxisX p1"
    using collide_dim_d_other [of AxisX AxisY r p1 v1] 2 by simp
  have x3: "coord_d AxisX p3 = coord_d AxisX p2"
    using collide_dim_d_other [of AxisX AxisZ r p2 v2] 3 by simp
  have y3: "coord_d AxisY p3 = coord_d AxisY p2"
    using collide_dim_d_other [of AxisY AxisZ r p2 v2] 3 by simp
  show ?thesis
    unfolding c using x1 y2 z3 x2 x3 y3 by (cases a) simp_all
qed

lemma integrate_loop_d_length:
  "length (positions_d (snd (integrate_loop_d dt m forces n i a))) = length (positions_d a)"
proof (induction "n - i" arbitrary: i a)
  case 0
  then show ?case by (simp add: integrate_loop_d.simps)
next
  case (Suc k)
  then have lt: "i < n" and k: "k = n - Suc i" by simp_all
  show ?case
    using lt Suc.hyps(1) [OF k]
    by (subst integrate_loop_d.simps) (simp add: Let_def split: option.splits)
qed

lemma collision_loop_d_result:
  assumes "collision_loop_d r n i a = (None, a')"
  shows "length (positions_d a') = length (positions_d a)
       \<and> (\<forall>k<length (positions_d a). positions_d a' ! k =
             (if i \<le> k \<and> k < n
              then fst (collide_d r (positions_d a ! k, velocities_d a ! k))
              else positions_d a ! k))"
  using assms
proof (induction "n - i" arbitrary: i a)
  case 0
  then show ?case by (auto simp: collision_loop_d.simps)
next
  case (Suc j)
  then have lt: "i < n" and j: "j = n - Suc i" by simp_all
  define c where "c = collide_d r (positions_d a ! i, velocities_d a ! i)"
  define a2 where "a2 = a\<lparr>positions_d := (positions_d a)[i := fst c],
     velocities_d := (velocities_d a)[i := snd c]\<rparr>"
  have in_range: "i < length (positions_d a) \<and> i < length (velocities_d a)"
  proof (rule ccontr)
    assume "\<not> (i < length (positions_d a) \<and> i < length (velocities_d a))"
    with lt have "collision_loop_d r n i a = (Some TypeError, a)"
      by (subst collision_loop_d.simps) (auto simp: Let_def)
    with Suc.prems show False by simp
  qed
  have step: "collision_loop_d r n i a = collision_loop_d r n (Suc i) a2"
    using lt in_range
    by (subst collision_loop_d.simps) (simp add: Let_def a2_def c_def split: prod.splits)
  with Suc.prems have "collision_loop_d r n (Suc i) a2 = (None, a')" by simp
  from Suc.hyps(1) [OF j this]
  have l: "length (positions_d a') = length (positions_d a2)"
    and r: "\<forall>k<length (positions_d a2). positions_d a' ! k =
        (if Suc i \<le> k \<and> k < n
         then fst (collide_d r (positions_d a2 ! k, velocities_d a2 ! k))
         else positions_d a2 ! k)"
    by simp_all
  have "positions_d a' ! k =
      (if i \<le> k \<and> k < n then fst (collide_d r (positions_d a ! k, velocities_d a ! k))
       else positions_d a ! k)" if "k < length (positions_d a)" for k
    using r that lt by (cases "k = i") (simp_all add: a2_def c_def)
  with l show ?case by (simp add: a2_def)
qed

lemma SimTimeStep_d_positions:
  assumes "SimTimeStep_d dt ps vs sps stiffness damping particleMass gravity restitution = (None, a')"
  shows "\<forall>k<length (positions_d a'). \<exists>q w. positions_d a' ! k = fst (collide_d restitution (q, w))"
proof -
  define a where "a = \<lparr>positions_d = ps, velocities_d = vs, springs_d = sps\<rparr>"
  from assms obtain forces where
    f: "spring_loop_d ps vs stiffness damping sps (init_forces_d (length ps) gravity particleMass)
          = Inr forces"
    by (cases "spring_loop_d ps vs stiffness damping sps
          (init_forces_d (length ps) gravity particleMass)")
       (simp_all add: SimTimeStep_d_def)
  obtain e a1 where i: "integrate_loop_d dt particleMass forces (length ps) 0 a = (e, a1)"
    by force
  from assms f i have e: "e = None"
    by (cases e) (simp_all add: SimTimeStep_d_def a_def [symmetric])
  with assms f i have c: "collision_loop_d restitution (length ps) 0 a1 = (None, a')"
    by (simp add: SimTimeStep_d_def a_def [symmetric])
  from integrate_loop_d_length [of dt particleMass forces "length ps" 0 a] i
  have l1: "length (positions_d a1) = length ps" by (simp add: a_def)
  from collision_loop_d_result [OF c] l1
  have "length (positions_d a') = length ps"
    and "\<forall>k<length ps. positions_d a' ! k
        = fst (collide_d restitution (positions_d a1 ! k, velocities_d a1 ! k))"
    by simp_all
  then show ?thesis by auto
qed

section \<open>The claims\<close>

text \<open>Unfolding rules for evaluating the step on concrete arguments.\<close>

lemmas vec_ops = Vec3_mul_def Vec3_div_def Vec3_add_def Vec3_sub_def Vec3_dot_def Vec3_len_def
  Vec3_unit_def Vec3_inc_def Vec3_dec_def

lemmas step_defs = SimTimeStep_def init_forces_def spring_body_def spring_force_def array_get_def
  integrate_loop.simps collision_loop.simps collide_def collide_dim_def

lemmas vec_ops_d = Vec3_mul_d_def Vec3_div_d_def Vec3_add_d_def Vec3_sub_d_def Vec3_dot_d_def
  Vec3_len_d_def Vec3_unit_d_def Vec3_inc_d_def Vec3_dec_d_def sub_d_def overflow_def

lemmas step_defs_d = SimTimeStep_d_def init_forces_d_def spring_body_d_def spring_force_d_def
  array_get_def integrate_loop_d.simps collision_loop_d.simps collide_d_def collide_dim_d_def

subsection \<open>Which endpoint receives the spring force\<close>

text \<open>
  Two particles at rest at \<open>(0,0,0)\<close> and \<open>(1,0,0)\<close>, one spring from particle 0 to
  particle 1 with rest length 2, stiffness 1 and no damping, empty accumulators. The loop body
  computes \<open>f = (-1,0,0)\<close> and leaves \<open>(-1,0,0)\<close> in the accumulator of \<open>p0\<close> and
  \<open>(1,0,0)\<close> in that of \<open>p1\<close>: the accumulator of \<open>p1\<close> is not its old value plus
  \<open>f\<close> and that of \<open>p0\<close> is not its old value minus \<open>f\<close>.
\<close>

theorem spring_contribution_sign_counterexample:
  "spring_body [Vec3 0 0 0, Vec3 1 0 0] [Vec3 0 0 0, Vec3 0 0 0] 1 0 \<lparr>p0 = 0, p1 = 1, rest = 2\<rparr>
      [Vec3 0 0 0, Vec3 0 0 0] = Inr [Vec3 (- 1) 0 0, Vec3 1 0 0]
   \<and> [Vec3 (- 1) 0 0, Vec3 1 0 0] ! 1
        \<noteq> Vec3_add ([Vec3 0 0 0, Vec3 0 0 0] ! 1)
            (spring_force 1 0 2 (Vec3 0 0 0) (Vec3 1 0 0) (Vec3 0 0 0) (Vec3 0 0 0))
   \<and> [Vec3 (- 1) 0 0, Vec3 1 0 0] ! 0
        \<noteq> Vec3_sub ([Vec3 0 0 0, Vec3 0 0 0] ! 0)
            (spring_force 1 0 2 (Vec3 0 0 0) (Vec3 1 0 0) (Vec3 0 0 0) (Vec3 0 0 0))"
  by (simp add: spring_body_def spring_force_def array_get_def vec_ops Let_def)

text \<open>
  Claim C1, as amended. For every spring whose indices are valid, the loop body computes
  \<open>f = fs + fd\<close>, the Hooke force plus the damping along the spring, both along the unit
  vector from \<open>p0\<close> to \<open>p1\<close>; it adds \<open>f\<close> to the force accumulator of particle
  \<open>p0\<close> and subtracts it from the accumulator of particle \<open>p1\<close>, and changes no other
  accumulator.
\<close>

theorem spring_force_added_to_p0_subtracted_from_p1:
  assumes "spring_valid ps vs s" and "length forces = length ps"
    and "d = Vec3_sub (ps ! nat (p1 s)) (ps ! nat (p0 s))"
    and "dir = Vec3_unit d"
    and "fs = Vec3_mul dir (stiffness * (Vec3_len d - rest s))"
    and "fd = Vec3_mul dir (damping * Vec3_dot (Vec3_sub (vs ! nat (p1 s)) (vs ! nat (p0 s))) dir)"
    and "f = Vec3_add fs fd"
  shows "\<exists>forces'. spring_body ps vs stiffness damping s forces = Inr forces'
           \<and> length forces' = length forces
           \<and> (\<forall>n<length forces. \<forall>a. coord a (forces' ! n) =
                 coord a (forces ! n) + (if n = nat (p0 s) then coord a f else 0)
                                      - (if n = nat (p1 s) then coord a f else 0))
           \<and> (p0 s \<noteq> p1 s \<longrightarrow>
                 forces' ! nat (p0 s) = Vec3_add (forces ! nat (p0 s)) f
               \<and> forces' ! nat (p1 s) = Vec3_sub (forces ! nat (p1 s)) f)"
proof -
  have f: "f = spring_f ps vs stiffness damping s"
    using assms(3-7) by (simp add: spring_f_def spring_force_def Let_def)
  from spring_body_valid [OF assms(1,2), of stiffness damping]
  obtain forces' where b: "spring_body ps vs stiffness damping s forces = Inr forces'"
    "length forces' = length forces"
    "\<forall>n<length forces. \<forall>a. coord a (forces' ! n)
        = coord a (forces ! n) + contribution ps vs stiffness damping s n a"
    by blast
  from assms(1,2) have r: "nat (p0 s) < length forces" "nat (p1 s) < length forces"
    "0 \<le> p0 s" "0 \<le> p1 s"
    by (auto simp: spring_valid_def)
  have c: "\<forall>n<length forces. \<forall>a. coord a (forces' ! n) =
      coord a (forces ! n) + (if n = nat (p0 s) then coord a f else 0)
                           - (if n = nat (p1 s) then coord a f else 0)"
    using b(3) by (simp add: contribution_def f)
  have "forces' ! nat (p0 s) = Vec3_add (forces ! nat (p0 s)) f
      \<and> forces' ! nat (p1 s) = Vec3_sub (forces ! nat (p1 s)) f" if "p0 s \<noteq> p1 s"
  proof
    from that r have ne: "nat (p0 s) \<noteq> nat (p1 s)" by simp
    show "forces' ! nat (p0 s) = Vec3_add (forces ! nat (p0 s)) f"
      using c r(1) ne by (intro vec3_eqI) simp
    show "forces' ! nat (p1 s) = Vec3_sub (forces ! nat (p1 s)) f"
      using c r(2) ne by (intro vec3_eqI) simp
  qed
  with b(1,2) c show ?thesis by blast
qed

theorem spring_force_added_to_p0_subtracted_from_p1_witness:
  "spring_valid [Vec3 0 0 0, Vec3 1 0 0] [Vec3 0 0 0, Vec3 0 0 0] \<lparr>p0 = 0, p1 = 1, rest = 2\<rparr>
   \<and> length [Vec3 0 0 0, Vec3 0 0 0] = length [Vec3 0 0 0, Vec3 1 0 0]
   \<and> (\<exists>forces'. spring_body [Vec3 0 0 0, Vec3 1 0 0] [Vec3 0 0 0, Vec3 0 0 0] 1 0
          \<lparr>p0 = 0, p1 = 1, rest = 2\<rparr> [Vec3 0 0 0, Vec3 0 0 0] = Inr forces'
        \<and> forces' ! 0 = Vec3_add (Vec3 0 0 0) (Vec3 (- 1) 0 0)
        \<and> forces' ! 1 = Vec3_sub (Vec3 0 0 0) (Vec3 (- 1) 0 0))"
proof -
  let ?ps = "[Vec3 0 0 0, Vec3 1 0 0]" and ?vs = "[Vec3 0 0 0, Vec3 0 0 0]"
  let ?s = "\<lparr>p0 = 0, p1 = 1, rest = 2\<rparr>"
  have v: "spring_valid ?ps ?vs ?s" by (simp add: spring_valid_def)
  have l: "length ?vs = length ?ps" by simp
  have f: "Vec3 (- 1) 0 0 = Vec3_add
     (Vec3_mul (Vec3_unit (Vec3_sub (?ps ! nat (p1 ?s)) (?ps ! nat (p0 ?s))))
        (1 * (Vec3_len (Vec3_sub (?ps ! nat (p1 ?s)) (?ps ! nat (p0 ?s))) - rest ?s)))
     (Vec3_mul (Vec3_unit (Vec3_sub (?ps ! nat (p1 ?s)) (?ps ! nat (p0 ?s))))
        (0 * Vec3_dot (Vec3_sub (?vs ! nat (p1 ?s)) (?vs ! nat (p0 ?s)))
               (Vec3_unit (Vec3_sub (?ps ! nat (p1 ?s)) (?ps ! nat (p0 ?s))))))"
    by (simp add: vec_ops)
  from spring_force_added_to_p0_subtracted_from_p1 [OF v l refl refl refl refl f]
  show ?thesis using v by simp blast
qed

subsection \<open>The bounding box\<close>

text \<open>
  Two calls after which a position coordinate is not in the interval from \<open>-1\<close> to \<open>1\<close>.

  The first has finite arguments that meet the data model: particles at rest at
  \<open>(0,0,0)\<close> and \<open>(1,0,0)\<close>, one spring between them with rest length 100, stiffness
  \<open>2 ^ 1023\<close>, no damping, mass 1, no gravity, \<open>dt = 0.5\<close> and restitution \<open>0.5\<close>.
  \<open>stiffness * (L - rest)\<close> overflows to \<open>-Infinity\<close>, the direction \<open>(1,0,0)\<close> times it
  is \<open>(-Infinity, NaN, NaN)\<close>, and the call returns with the y and z coordinates of both
  positions NaN: neither \<open>NaN < -1\<close> nor \<open>NaN > 1\<close> holds, so the collision loop leaves
  them.

  The second has a spring index outside the array: the call throws in the spring loop and
  the position \<open>(0,0,1.25)\<close> it was given is still there.
\<close>

theorem positions_outside_cube_counterexample:
  "SimTimeStep_d (Finite (1/2))
     [Vec3_d (Finite 0) (Finite 0) (Finite 0), Vec3_d (Finite 1) (Finite 0) (Finite 0)]
     [Vec3_d (Finite 0) (Finite 0) (Finite 0), Vec3_d (Finite 0) (Finite 0) (Finite 0)]
     [\<lparr>p0_d = 0, p1_d = 1, rest_d = Finite 100\<rparr>]
     (Finite (2 ^ 1023)) (Finite 0) (Finite 1) (Vec3_d (Finite 0) (Finite 0) (Finite 0))
     (Finite (1/2))
   = (None,
      \<lparr>positions_d = [Vec3_d (Finite (- 1)) NaN NaN, Vec3_d (Finite 1) NaN NaN],
       velocities_d = [Vec3_d PosInf NaN NaN, Vec3_d NegInf NaN NaN],
       springs_d = [\<lparr>p0_d = 0, p1_d = 1, rest_d = Finite 100\<rparr>]\<rparr>)
   \<and> \<not> within_box
        (coord_d AxisY ([Vec3_d (Finite (- 1)) NaN NaN, Vec3_d (Finite 1) NaN NaN] ! 0))
   \<and> SimTimeStep_d (Finite (1/2))
       [Vec3_d (Finite 0) (Finite 0) (Finite (5/4))]
       [Vec3_d (Finite 0) (Finite 0) (Finite 0)]
       [\<lparr>p0_d = 0, p1_d = 5, rest_d = Finite 1\<rparr>]
       (Finite 1) (Finite 0) (Finite 1) (Vec3_d (Finite 0) (Finite 0) (Finite 0))
       (Finite (1/2))
     = (Some TypeError,
        \<lparr>positions_d = [Vec3_d (Finite 0) (Finite 0) (Finite (5/4))],
         velocities_d = [Vec3_d (Finite 0) (Finite 0) (Finite 0)],
         springs_d = [\<lparr>p0_d = 0, p1_d = 5, rest_d = Finite 1\<rparr>]\<rparr>)
   \<and> \<not> within_box (coord_d AxisZ ([Vec3_d (Finite 0) (Finite 0) (Finite (5/4))] ! 0))"
  by (simp add: step_defs_d vec_ops_d Let_def within_box_def)

text \<open>
  Claim C2, as amended. After every call of \<open>SimTimeStep\<close> that returns, every coordinate
  of every particle position is NaN or lies in the closed interval from \<open>-1\<close> to \<open>1\<close>;
  infinite coordinates are clamped like finite ones.
\<close>

theorem positions_in_cube_or_NaN:
  assumes "SimTimeStep_d dt ps vs sps stiffness damping particleMass gravity restitution
         = (None, a')"
  shows "\<forall>p\<in>set (positions_d a'). \<forall>ax. coord_d ax p = NaN \<or> within_box (coord_d ax p)"
proof (intro ballI allI)
  fix p ax assume "p \<in> set (positions_d a')"
  then obtain k where k: "k < length (positions_d a')" "p = positions_d a' ! k"
    by (auto simp: in_set_conv_nth)
  from SimTimeStep_d_positions [OF assms] k
  obtain q w where "p = fst (collide_d restitution (q, w))" by auto
  then show "coord_d ax p = NaN \<or> within_box (coord_d ax p)"
    using collide_d_coord [of ax restitution q w] by simp
qed

theorem positions_in_cube_or_NaN_witness:
  "SimTimeStep_d (Finite (1/2))
     [Vec3_d (Finite 0) (Finite 0) (Finite (3/4))]
     [Vec3_d (Finite 0) (Finite 0) (Finite 1)]
     []
     (Finite 1) (Finite 0) (Finite 1) (Vec3_d (Finite 0) (Finite 0) (Finite 0))
     (Finite (1/2))
   = (None,
      \<lparr>positions_d = [Vec3_d (Finite 0) (Finite 0) (Finite 1)],
       velocities_d = [Vec3_d (Finite 0) (Finite 0) (Finite (- (1/2)))],
       springs_d = []\<rparr>)
   \<and> (coord_d AxisZ (Vec3_d (Finite 0) (Finite 0) (Finite 1)) = NaN
      \<or> within_box (coord_d AxisZ (Vec3_d (Finite 0) (Finite 0) (Finite 1))))"
proof -
  let ?a' = "\<lparr>positions_d = [Vec3_d (Finite 0) (Finite 0) (Finite 1)],
       velocities_d = [Vec3_d (Finite 0) (Finite 0) (Finite (- (1/2)))],
       springs_d = []\<rparr>"
  have s: "SimTimeStep_d (Finite (1/2))
     [Vec3_d (Finite 0) (Finite 0) (Finite (3/4))]
     [Vec3_d (Finite 0) (Finite 0) (Finite 1)]
     []
     (Finite 1) (Finite 0) (Finite 1) (Vec3_d (Finite 0) (Finite 0) (Finite 0))
     (Finite (1/2)) = (None, ?a')"
    by (simp add: step_defs_d vec_ops_d Let_def)
  have "Vec3_d (Finite 0) (Finite 0) (Finite 1) \<in> set (positions_d ?a')" by simp
  with positions_in_cube_or_NaN [OF s]
  have "coord_d AxisZ (Vec3_d (Finite 0) (Finite 0) (Finite 1)) = NaN
      \<or> within_box (coord_d AxisZ (Vec3_d (Finite 0) (Finite 0) (Finite 1)))"
    by blast
  with s show ?thesis by blast
qed

subsection \<open>The integrator\<close>

text \<open>
  Claim C3. Phase 3 sets, for each particle, the velocity to the old velocity plus
  \<open>force / particleMass * dt\<close> and then the position to the old position plus the
  \<^emph>\<open>new\<close> velocity times \<open>dt\<close>. A single particle without springs at
  \<open>(0,0,0.5)\<close>, at rest, with gravity \<open>(0,0,-1)\<close>, mass 1 and \<open>dt = 0.1\<close> ends the
  step with velocity \<open>(0,0,-0.1)\<close> and position \<open>(0,0,0.49)\<close>.
\<close>

theorem semi_implicit_euler:
  "(n \<le> length forces \<and> n \<le> length (velocities a) \<and> n \<le> length (positions a)
      \<and> particleMass \<noteq> 0 \<longrightarrow>
      (\<exists>a'. integrate_loop dt particleMass forces n 0 a = (None, a')
         \<and> (\<forall>i<n. \<forall>ax.
               coord ax (velocities a' ! i)
                 = coord ax (velocities a ! i) + coord ax (forces ! i) / particleMass * dt
             \<and> coord ax (positions a' ! i)
                 = coord ax (positions a ! i) + coord ax (velocities a' ! i) * dt)))
   \<and> SimTimeStep (1/10) [Vec3 0 0 (1/2)] [Vec3 0 0 0] [] stiffness damping 1 (Vec3 0 0 (- 1))
         restitution
       = (None, \<lparr>positions = [Vec3 0 0 (49/100)], velocities = [Vec3 0 0 (- (1/10))],
                 springs = []\<rparr>)"
proof (intro conjI impI)
  assume h: "n \<le> length forces \<and> n \<le> length (velocities a) \<and> n \<le> length (positions a)
      \<and> particleMass \<noteq> 0"
  then have l: "n \<le> length forces" "n \<le> length (velocities a)" "n \<le> length (positions a)"
    by simp_all
  from integrate_loop_normal [OF l, of dt particleMass 0]
  obtain a' where a': "integrate_loop dt particleMass forces n 0 a = (None, a')"
    "\<forall>k<length (velocities a). velocities a' ! k =
        (if 0 \<le> k \<and> k < n then new_velocity dt particleMass (forces ! k) (velocities a ! k)
         else velocities a ! k)"
    "\<forall>k<length (positions a). positions a' ! k =
        (if 0 \<le> k \<and> k < n
         then new_position dt particleMass (forces ! k) (velocities a ! k) (positions a ! k)
         else positions a ! k)"
    by blast
  have "coord ax (velocities a' ! i)
          = coord ax (velocities a ! i) + coord ax (forces ! i) / particleMass * dt
      \<and> coord ax (positions a' ! i)
          = coord ax (positions a ! i) + coord ax (velocities a' ! i) * dt"
    if "i < n" for i ax
    using that l a'(2,3) by (simp add: new_velocity_def new_position_def)
  with a'(1)
  show "\<exists>a'. integrate_loop dt particleMass forces n 0 a = (None, a')
         \<and> (\<forall>i<n. \<forall>ax.
               coord ax (velocities a' ! i)
                 = coord ax (velocities a ! i) + coord ax (forces ! i) / particleMass * dt
             \<and> coord ax (positions a' ! i)
                 = coord ax (positions a ! i) + coord ax (velocities a' ! i) * dt)"
    by blast
next
  show "SimTimeStep (1/10) [Vec3 0 0 (1/2)] [Vec3 0 0 0] [] stiffness damping 1 (Vec3 0 0 (- 1))
         restitution
       = (None, \<lparr>positions = [Vec3 0 0 (49/100)], velocities = [Vec3 0 0 (- (1/10))],
                 springs = []\<rparr>)"
    by (simp add: step_defs vec_ops Let_def)
qed

theorem semi_implicit_euler_witness:
  "(1::nat) \<le> length [Vec3 0 0 (- 1)]
   \<and> (1::nat) \<le> length (velocities \<lparr>positions = [Vec3 0 0 (1/2)], velocities = [Vec3 0 0 0],
                                    springs = []\<rparr>)
   \<and> (1::nat) \<le> length (positions \<lparr>positions = [Vec3 0 0 (1/2)], velocities = [Vec3 0 0 0],
                                   springs = []\<rparr>)
   \<and> (1::real) \<noteq> 0
   \<and> (\<exists>a'. integrate_loop (1/10) 1 [Vec3 0 0 (- 1)] 1 0
              \<lparr>positions = [Vec3 0 0 (1/2)], velocities = [Vec3 0 0 0], springs = []\<rparr>
            = (None, a')
          \<and> coord AxisZ (velocities a' ! 0) = - (1/10)
          \<and> coord AxisZ (positions a' ! 0) = 49/100)"
proof -
  let ?a = "\<lparr>positions = [Vec3 0 0 (1/2)], velocities = [Vec3 0 0 0], springs = []\<rparr>"
  from semi_implicit_euler [where n = 1 and forces = "[Vec3 0 0 (- 1)]" and a = ?a
      and particleMass = 1 and dt = "1/10"]
  have "\<exists>a'. integrate_loop (1/10) 1 [Vec3 0 0 (- 1)] 1 0 ?a = (None, a')
          \<and> (\<forall>ax. coord ax (velocities a' ! 0)
                     = coord ax (Vec3 0 0 0) + coord ax (Vec3 0 0 (- 1)) / 1 * (1/10)
                 \<and> coord ax (positions a' ! 0)
                     = coord ax (Vec3 0 0 (1/2)) + coord ax (velocities a' ! 0) * (1/10))"
    by simp
  then obtain a' where 1: "integrate_loop (1/10) 1 [Vec3 0 0 (- 1)] 1 0 ?a = (None, a')"
    and 2: "\<And>ax. coord ax (velocities a' ! 0)
                     = coord ax (Vec3 0 0 0) + coord ax (Vec3 0 0 (- 1)) / 1 * (1/10)
                 \<and> coord ax (positions a' ! 0)
                     = coord ax (Vec3 0 0 (1/2)) + coord ax (velocities a' ! 0) * (1/10)"
    by blast
  from 2 [of AxisZ] have "coord AxisZ (velocities a' ! 0) = - (1/10)"
    "coord AxisZ (positions a' ! 0) = 49/100"
    by simp_all
  with 1 show ?thesis by simp
qed

subsection \<open>Collision resolution\<close>

text \<open>
  Claim C5. The collision loop treats each particle and each axis on its own. A position
  coordinate below \<open>-1\<close> is set to \<open>-1\<close>, and the velocity coordinate is replaced by
  \<open>-velocity * restitution\<close> only when it is negative; a coordinate above \<open>1\<close> is set to
  \<open>1\<close>, with the reflection only when the velocity is positive; a coordinate inside the
  interval leaves both unchanged. A particle without springs at \<open>position.z = 0.95\<close> with
  \<open>velocity.z = 1\<close>, no gravity and \<open>dt = 0.1\<close> ends the step with \<open>position.z = 1\<close>
  and \<open>velocity.z = -1 * restitution\<close>.
\<close>

theorem collision_clamps_and_reflects:
  "(n \<le> length (positions a) \<and> n \<le> length (velocities a) \<longrightarrow>
      (\<exists>a'. collision_loop restitution n 0 a = (None, a')
         \<and> (\<forall>i<n. \<forall>ax.
               (coord ax (positions a ! i) < - 1 \<longrightarrow>
                  coord ax (positions a' ! i) = - 1
                \<and> coord ax (velocities a' ! i) =
                    (if coord ax (velocities a ! i) < 0
                     then - coord ax (velocities a ! i) * restitution
                     else coord ax (velocities a ! i)))
             \<and> (coord ax (positions a ! i) > 1 \<longrightarrow>
                  coord ax (positions a' ! i) = 1
                \<and> coord ax (velocities a' ! i) =
                    (if coord ax (velocities a ! i) > 0
                     then - coord ax (velocities a ! i) * restitution
                     else coord ax (velocities a ! i)))
             \<and> (- 1 \<le> coord ax (positions a ! i) \<and> coord ax (positions a ! i) \<le> 1 \<longrightarrow>
                  coord ax (positions a' ! i) = coord ax (positions a ! i)
                \<and> coord ax (velocities a' ! i) = coord ax (velocities a ! i)))))
   \<and> (particleMass \<noteq> 0 \<longrightarrow>
        (\<exists>a'. SimTimeStep (1/10) [Vec3 px py (95/100)] [Vec3 wx wy 1] [] stiffness damping
                 particleMass (Vec3 0 0 0) restitution = (None, a')
           \<and> coord AxisZ (positions a' ! 0) = 1
           \<and> coord AxisZ (velocities a' ! 0) = - 1 * restitution))"
proof (intro conjI impI)
  assume "n \<le> length (positions a) \<and> n \<le> length (velocities a)"
  then have l: "n \<le> length (positions a)" "n \<le> length (velocities a)" by simp_all
  from collision_loop_normal [OF l, of restitution 0]
  obtain a' where a': "collision_loop restitution n 0 a = (None, a')"
    "\<forall>k<length (positions a). positions a' ! k =
        (if 0 \<le> k \<and> k < n then fst (collide restitution (positions a ! k, velocities a ! k))
         else positions a ! k)"
    "\<forall>k<length (velocities a). velocities a' ! k =
        (if 0 \<le> k \<and> k < n then snd (collide restitution (positions a ! k, velocities a ! k))
         else velocities a ! k)"
    by blast
  have p: "coord ax (positions a' ! i) = clamp_pos (coord ax (positions a ! i))"
    and v: "coord ax (velocities a' ! i)
        = bounce_vel restitution (coord ax (positions a ! i)) (coord ax (velocities a ! i))"
    if "i < n" for i ax
    using that l a'(2,3) by (simp_all add: collide_fst collide_snd)
  show "\<exists>a'. collision_loop restitution n 0 a = (None, a')
         \<and> (\<forall>i<n. \<forall>ax.
               (coord ax (positions a ! i) < - 1 \<longrightarrow>
                  coord ax (positions a' ! i) = - 1
                \<and> coord ax (velocities a' ! i) =
                    (if coord ax (velocities a ! i) < 0
                     then - coord ax (velocities a ! i) * restitution
                     else coord ax (velocities a ! i)))
             \<and> (coord ax (positions a ! i) > 1 \<longrightarrow>
                  coord ax (positions a' ! i) = 1
                \<and> coord ax (velocities a' ! i) =
                    (if coord ax (velocities a ! i) > 0
                     then - coord ax (velocities a ! i) * restitution
                     else coord ax (velocities a ! i)))
             \<and> (- 1 \<le> coord ax (positions a ! i) \<and> coord ax (positions a ! i) \<le> 1 \<longrightarrow>
                  coord ax (positions a' ! i) = coord ax (positions a ! i)
                \<and> coord ax (velocities a' ! i) = coord ax (velocities a ! i)))"
    using a'(1) by (intro exI [of _ a']) (simp add: p v clamp_pos_def bounce_vel_def)
next
  assume m: "particleMass \<noteq> 0"
  let ?ps = "[Vec3 px py (95/100)]" and ?vs = "[Vec3 wx wy 1]"
  have ok: "\<forall>s\<in>set []. spring_valid ?ps ?vs s" "length ?ps \<le> length ?vs" by simp_all
  from SimTimeStep_normal [OF ok, of stiffness damping "Vec3 0 0 0" particleMass "1/10" restitution]
  obtain a' where a': "SimTimeStep (1/10) ?ps ?vs [] stiffness damping particleMass (Vec3 0 0 0)
        restitution = (None, a')"
    "positions a' ! 0 = fst (collide restitution
        (new_position (1/10) particleMass (Vec3_mul (Vec3 0 0 0) particleMass) (?vs ! 0) (?ps ! 0),
         new_velocity (1/10) particleMass (Vec3_mul (Vec3 0 0 0) particleMass) (?vs ! 0)))"
    "velocities a' ! 0 = snd (collide restitution
        (new_position (1/10) particleMass (Vec3_mul (Vec3 0 0 0) particleMass) (?vs ! 0) (?ps ! 0),
         new_velocity (1/10) particleMass (Vec3_mul (Vec3 0 0 0) particleMass) (?vs ! 0)))"
    by (auto simp: init_forces_def)
  have "coord AxisZ (positions a' ! 0) = 1"
    unfolding a'(2) collide_fst
    by (simp add: new_position_def new_velocity_def clamp_pos_def)
  moreover have "coord AxisZ (velocities a' ! 0) = - 1 * restitution"
    unfolding a'(3) collide_snd
    by (simp add: new_position_def new_velocity_def bounce_vel_def)
  ultimately
  show "\<exists>a'. SimTimeStep (1/10) [Vec3 px py (95/100)] [Vec3 wx wy 1] [] stiffness damping
                 particleMass (Vec3 0 0 0) restitution = (None, a')
           \<and> coord AxisZ (positions a' ! 0) = 1
           \<and> coord AxisZ (velocities a' ! 0) = - 1 * restitution"
    using a'(1) by blast
qed

theorem collision_clamps_and_reflects_witness:
  "(1::nat) \<le> length (positions \<lparr>positions = [Vec3 0 0 (105/100)], velocities = [Vec3 0 0 1],
                                  springs = []\<rparr>)
   \<and> (1::nat) \<le> length (velocities \<lparr>positions = [Vec3 0 0 (105/100)], velocities = [Vec3 0 0 1],
                                    springs = []\<rparr>)
   \<and> (\<exists>a'. collision_loop (1/2) 1 0
              \<lparr>positions = [Vec3 0 0 (105/100)], velocities = [Vec3 0 0 1], springs = []\<rparr>
            = (None, a')
          \<and> coord AxisZ (positions a' ! 0) = 1
          \<and> coord AxisZ (velocities a' ! 0) = - (1/2))
   \<and> (1::real) \<noteq> 0
   \<and> (\<exists>a'. SimTimeStep (1/10) [Vec3 0 0 (95/100)] [Vec3 0 0 1] [] 1 0 1 (Vec3 0 0 0) (1/2)
            = (None, a')
          \<and> coord AxisZ (positions a' ! 0) = 1
          \<and> coord AxisZ (velocities a' ! 0) = - (1/2))"
proof -
  let ?a = "\<lparr>positions = [Vec3 0 0 (105/100)], velocities = [Vec3 0 0 1], springs = []\<rparr>"
  note t = collision_clamps_and_reflects [where n = 1 and a = ?a
      and restitution = "1/2" and particleMass = 1 and px = 0 and py = 0 and wx = 0 and wy = 0
      and stiffness = 1 and damping = 0]
  have h: "1 \<le> length (positions ?a) \<and> 1 \<le> length (velocities ?a)" by simp
  from t [THEN conjunct1, THEN mp, OF h]
  obtain a' where 1: "collision_loop (1/2) 1 0 ?a = (None, a')"
    and 2: "coord AxisZ (positions ?a ! 0) > 1 \<longrightarrow>
             coord AxisZ (positions a' ! 0) = 1
           \<and> coord AxisZ (velocities a' ! 0) =
               (if coord AxisZ (velocities ?a ! 0) > 0
                then - coord AxisZ (velocities ?a ! 0) * (1/2)
                else coord AxisZ (velocities ?a ! 0))"
    by (elim exE conjE allE [of _ 0] allE [of _ AxisZ]) (simp only: zero_less_one simp_thms, blast)
  from 2 have "coord AxisZ (positions a' ! 0) = 1"
    "coord AxisZ (velocities a' ! 0) = - (1/2)"
    by simp_all
  with 1 have A: "\<exists>a'. collision_loop (1/2) 1 0 ?a = (None, a')
      \<and> coord AxisZ (positions a' ! 0) = 1 \<and> coord AxisZ (velocities a' ! 0) = - (1/2)"
    by blast
  have m: "(1::real) \<noteq> 0" by simp
  from t [THEN conjunct2, THEN mp, OF m]
  have B: "\<exists>a'. SimTimeStep (1/10) [Vec3 0 0 (95/100)] [Vec3 0 0 1] [] 1 0 1 (Vec3 0 0 0) (1/2)
            = (None, a')
          \<and> coord AxisZ (positions a' ! 0) = 1
          \<and> coord AxisZ (velocities a' ! 0) = - (1/2)"
    by simp
  from h A m B show ?thesis by blast
qed

subsection \<open>Momentum\<close>



subsection \<open>A spring of length zero\<close>



subsection \<open>Two particles and one compressed spring\<close>

text \<open>
  Particles at rest at \<open>(0,0,0)\<close> and \<open>(1,0,0)\<close>, a spring from particle 0 to particle 1
  with rest length 2, stiffness 1, damping 0, mass 1, no gravity, \<open>dt = 0.01\<close> and
  restitution \<open>0.5\<close>: the second particle ends the step on the wall \<open>x = 1\<close> with
  x-velocity \<open>-0.005\<close>, which is not positive.
\<close>

theorem two_particle_scenario_counterexample:
  "SimTimeStep (1/100) [Vec3 0 0 0, Vec3 1 0 0] [Vec3 0 0 0, Vec3 0 0 0]
      [\<lparr>p0 = 0, p1 = 1, rest = 2\<rparr>] 1 0 1 (Vec3 0 0 0) (1/2)
     = (None, \<lparr>positions = [Vec3 (- (1/10000)) 0 0, Vec3 1 0 0],
               velocities = [Vec3 (- (1/100)) 0 0, Vec3 (- (1/200)) 0 0],
               springs = [\<lparr>p0 = 0, p1 = 1, rest = 2\<rparr>]\<rparr>)
   \<and> \<not> 0 < vec_x ([Vec3 (- (1/100)) 0 0, Vec3 (- (1/200)) 0 0] ! 1)"
  by (simp add: step_defs vec_ops Let_def)

text \<open>
  Claim C7, as amended. In the two-particle scenario, with both particles at rest and
  \<open>0 < dt \<le> 1\<close>, the compressed spring pushes the pair apart: the force on particle 0 is
  \<open>(-1,0,0)\<close>, that on particle 1 is \<open>(1,0,0)\<close>, and the integration phase gives them the
  x-velocities \<open>-dt\<close> and \<open>+dt\<close> (exact arithmetic). Particle 0 ends the step with the negative x-velocity
  \<open>-dt\<close>. Particle 1 starts on the wall \<open>x = 1\<close> and is moved to \<open>1 + dt * dt\<close>, so the
  collision phase puts it back to \<open>x = 1\<close> and reflects its x-velocity to
  \<open>-dt * restitution\<close>.
\<close>

theorem two_particle_scenario:
  assumes "0 < dt" and "dt \<le> 1"
  shows "spring_loop [Vec3 0 0 0, Vec3 1 0 0] [Vec3 0 0 0, Vec3 0 0 0] 1 0
            [\<lparr>p0 = 0, p1 = 1, rest = 2\<rparr>] (init_forces 2 (Vec3 0 0 0) 1)
          = Inr [Vec3 (- 1) 0 0, Vec3 1 0 0]
       \<and> integrate_loop dt 1 [Vec3 (- 1) 0 0, Vec3 1 0 0] 2 0
            \<lparr>positions = [Vec3 0 0 0, Vec3 1 0 0], velocities = [Vec3 0 0 0, Vec3 0 0 0],
             springs = [\<lparr>p0 = 0, p1 = 1, rest = 2\<rparr>]\<rparr>
          = (None, \<lparr>positions = [Vec3 (- (dt * dt)) 0 0, Vec3 (1 + dt * dt) 0 0],
                    velocities = [Vec3 (- dt) 0 0, Vec3 dt 0 0],
                    springs = [\<lparr>p0 = 0, p1 = 1, rest = 2\<rparr>]\<rparr>)
       \<and> SimTimeStep dt [Vec3 0 0 0, Vec3 1 0 0] [Vec3 0 0 0, Vec3 0 0 0]
            [\<lparr>p0 = 0, p1 = 1, rest = 2\<rparr>] 1 0 1 (Vec3 0 0 0) restitution
          = (None, \<lparr>positions = [Vec3 (- (dt * dt)) 0 0, Vec3 1 0 0],
                    velocities = [Vec3 (- dt) 0 0, Vec3 (- dt * restitution) 0 0],
                    springs = [\<lparr>p0 = 0, p1 = 1, rest = 2\<rparr>]\<rparr>)
       \<and> vec_x (velocities (snd (SimTimeStep dt [Vec3 0 0 0, Vec3 1 0 0]
            [Vec3 0 0 0, Vec3 0 0 0] [\<lparr>p0 = 0, p1 = 1, rest = 2\<rparr>] 1 0 1 (Vec3 0 0 0)
            restitution)) ! 0) < 0
       \<and> vec_x (velocities (snd (SimTimeStep dt [Vec3 0 0 0, Vec3 1 0 0]
            [Vec3 0 0 0, Vec3 0 0 0] [\<lparr>p0 = 0, p1 = 1, rest = 2\<rparr>] 1 0 1 (Vec3 0 0 0)
            restitution)) ! 1) = - dt * restitution"
proof -
  from assms have sq: "0 < dt * dt" "dt * dt \<le> 1"
    by (simp_all add: mult_le_one)
  then have c: "\<not> 1 < dt * dt" "\<not> dt * dt < - 1" "\<not> 2 + dt * dt < 0"
    by simp_all
  have 1: "spring_loop [Vec3 0 0 0, Vec3 1 0 0] [Vec3 0 0 0, Vec3 0 0 0] 1 0
            [\<lparr>p0 = 0, p1 = 1, rest = 2\<rparr>] (init_forces 2 (Vec3 0 0 0) 1)
          = Inr [Vec3 (- 1) 0 0, Vec3 1 0 0]"
    by (simp add: init_forces_def spring_body_def spring_force_def array_get_def vec_ops Let_def
        numeral_2_eq_2)
  have 2: "integrate_loop dt 1 [Vec3 (- 1) 0 0, Vec3 1 0 0] 2 0
            \<lparr>positions = [Vec3 0 0 0, Vec3 1 0 0], velocities = [Vec3 0 0 0, Vec3 0 0 0],
             springs = [\<lparr>p0 = 0, p1 = 1, rest = 2\<rparr>]\<rparr>
          = (None, \<lparr>positions = [Vec3 (- (dt * dt)) 0 0, Vec3 (1 + dt * dt) 0 0],
                    velocities = [Vec3 (- dt) 0 0, Vec3 dt 0 0],
                    springs = [\<lparr>p0 = 0, p1 = 1, rest = 2\<rparr>]\<rparr>)"
    by (simp add: integrate_loop.simps array_get_def vec_ops Let_def)
  have 3: "collision_loop restitution 2 0
            \<lparr>positions = [Vec3 (- (dt * dt)) 0 0, Vec3 (1 + dt * dt) 0 0],
                    velocities = [Vec3 (- dt) 0 0, Vec3 dt 0 0],
                    springs = [\<lparr>p0 = 0, p1 = 1, rest = 2\<rparr>]\<rparr>
          = (None, \<lparr>positions = [Vec3 (- (dt * dt)) 0 0, Vec3 1 0 0],
                    velocities = [Vec3 (- dt) 0 0, Vec3 (- dt * restitution) 0 0],
                    springs = [\<lparr>p0 = 0, p1 = 1, rest = 2\<rparr>]\<rparr>)"
    using assms(1) sq c
    by (simp add: collision_loop.simps collide_def collide_dim_def array_get_def Let_def)
  have len: "length [Vec3 0 0 0, Vec3 1 0 0] = 2" by simp
  have 4: "SimTimeStep dt [Vec3 0 0 0, Vec3 1 0 0] [Vec3 0 0 0, Vec3 0 0 0]
            [\<lparr>p0 = 0, p1 = 1, rest = 2\<rparr>] 1 0 1 (Vec3 0 0 0) restitution
          = (None, \<lparr>positions = [Vec3 (- (dt * dt)) 0 0, Vec3 1 0 0],
                    velocities = [Vec3 (- dt) 0 0, Vec3 (- dt * restitution) 0 0],
                    springs = [\<lparr>p0 = 0, p1 = 1, rest = 2\<rparr>]\<rparr>)"
    by (simp only: SimTimeStep_def Let_def len 1 sum.case 2 prod.case option.case 3)
  from 1 2 4 assms(1) show ?thesis by simp
qed

theorem two_particle_scenario_witness:
  "(0::real) < 1/10 \<and> (1/10::real) \<le> 1
   \<and> SimTimeStep (1/10) [Vec3 0 0 0, Vec3 1 0 0] [Vec3 0 0 0, Vec3 0 0 0]
        [\<lparr>p0 = 0, p1 = 1, rest = 2\<rparr>] 1 0 1 (Vec3 0 0 0) 1
      = (None, \<lparr>positions = [Vec3 (- (1/100)) 0 0, Vec3 1 0 0],
                velocities = [Vec3 (- (1/10)) 0 0, Vec3 (- (1/10)) 0 0],
                springs = [\<lparr>p0 = 0, p1 = 1, rest = 2\<rparr>]\<rparr>)"
proof -
  have a: "(0::real) < 1/10" and b: "(1/10::real) \<le> 1" by simp_all
  from two_particle_scenario [OF a b, of 1] a b show ?thesis by simp
qed

subsection \<open>Faults\<close>

text \<open>
  With the negative mass \<open>-1\<close> and the negative time step \<open>-1\<close> the step raises no
  fault: it completes and returns a new state.
\<close>

theorem no_validation_counterexample:
  "SimTimeStep (- 1) [Vec3 0 0 0] [Vec3 0 0 0] [] 1 0 (- 1) (Vec3 0 0 (- 1)) 1
     = (None, \<lparr>positions = [Vec3 0 0 (- 1)], velocities = [Vec3 0 0 1], springs = []\<rparr>)"
  by (simp add: step_defs vec_ops Let_def)

text \<open>
  Claim C8, as amended. \<open>SimTimeStep\<close> does not validate \<open>dt\<close> or \<open>particleMass\<close>:
  whatever their values, the call completes without a fault exactly when every spring index
  addresses an element of both arrays and \<open>velocities\<close> has at least as many elements as
  \<open>positions\<close>. A spring index outside the range raises a TypeError in the spring loop,
  before any position or velocity has been modified.
\<close>

theorem faults_only_from_array_reads:
  "(fst (SimTimeStep dt ps vs sps stiffness damping particleMass gravity restitution) = None
      \<longleftrightarrow> (\<forall>s\<in>set sps. spring_valid ps vs s) \<and> length ps \<le> length vs)
   \<and> ((\<exists>s\<in>set sps. \<not> spring_valid ps vs s) \<longrightarrow>
        SimTimeStep dt ps vs sps stiffness damping particleMass gravity restitution
          = (Some TypeError, \<lparr>positions = ps, velocities = vs, springs = sps\<rparr>))"
proof (intro conjI impI)
  show "fst (SimTimeStep dt ps vs sps stiffness damping particleMass gravity restitution) = None
      \<longleftrightarrow> (\<forall>s\<in>set sps. spring_valid ps vs s) \<and> length ps \<le> length vs"
    by (rule SimTimeStep_completes_iff)
next
  assume "\<exists>s\<in>set sps. \<not> spring_valid ps vs s"
  from spring_loop_invalid [OF this]
  show "SimTimeStep dt ps vs sps stiffness damping particleMass gravity restitution
          = (Some TypeError, \<lparr>positions = ps, velocities = vs, springs = sps\<rparr>)"
    by (simp add: SimTimeStep_def)
qed

theorem faults_only_from_array_reads_witness:
  "\<not> spring_valid [Vec3 0 0 0] [Vec3 0 0 0] \<lparr>p0 = 0, p1 = 5, rest = 1\<rparr>
   \<and> SimTimeStep (1/10) [Vec3 0 0 0] [Vec3 0 0 0] [\<lparr>p0 = 0, p1 = 5, rest = 1\<rparr>] 1 0 1
        (Vec3 0 0 (- 1)) 1
      = (Some TypeError, \<lparr>positions = [Vec3 0 0 0], velocities = [Vec3 0 0 0],
                           springs = [\<lparr>p0 = 0, p1 = 5, rest = 1\<rparr>]\<rparr>)
   \<and> fst (SimTimeStep (- 1) [Vec3 0 0 0] [Vec3 0 0 0] [] 1 0 (- 1) (Vec3 0 0 (- 1)) 1) = None"
proof -
  let ?s = "\<lparr>p0 = 0, p1 = 5, rest = 1\<rparr>"
  have n: "\<not> spring_valid [Vec3 0 0 0] [Vec3 0 0 0] ?s" by (simp add: spring_valid_def)
  then have e: "\<exists>s\<in>set [?s]. \<not> spring_valid [Vec3 0 0 0] [Vec3 0 0 0] s" by simp
  from faults_only_from_array_reads [where sps = "[?s]" and ps = "[Vec3 0 0 0]"
      and vs = "[Vec3 0 0 0]" and dt = "1/10" and stiffness = 1 and damping = 0
      and particleMass = 1 and gravity = "Vec3 0 0 (- 1)" and restitution = 1,
      THEN conjunct2, THEN mp, OF e]
  have A: "SimTimeStep (1/10) [Vec3 0 0 0] [Vec3 0 0 0] [?s] 1 0 1 (Vec3 0 0 (- 1)) 1
      = (Some TypeError, \<lparr>positions = [Vec3 0 0 0], velocities = [Vec3 0 0 0],
                           springs = [?s]\<rparr>)" .
  from faults_only_from_array_reads [where sps = "[]" and ps = "[Vec3 0 0 0]"
      and vs = "[Vec3 0 0 0]" and dt = "- 1" and stiffness = 1 and damping = 0
      and particleMass = "- 1" and gravity = "Vec3 0 0 (- 1)" and restitution = 1,
      THEN conjunct1]
  have B: "fst (SimTimeStep (- 1) [Vec3 0 0 0] [Vec3 0 0 0] [] 1 0 (- 1) (Vec3 0 0 (- 1)) 1) = None"
    by simp
  from n A B show ?thesis by blast
qed

subsection \<open>What the step leaves alone\<close>

text \<open>
  Claim C9. Whatever the arguments and however the call ends, the \<open>springs\<close> array after
  the call is the one before it, and the \<open>positions\<close> and \<open>velocities\<close> arrays have
  the lengths they had.
\<close>

theorem springs_and_particle_count_unchanged:
  "springs (snd (SimTimeStep dt ps vs sps stiffness damping particleMass gravity restitution)) = sps
   \<and> length (positions (snd (SimTimeStep dt ps vs sps stiffness damping particleMass gravity
        restitution))) = length ps
   \<and> length (velocities (snd (SimTimeStep dt ps vs sps stiffness damping particleMass gravity
        restitution))) = length vs"
  by (rule SimTimeStep_frame)

subsection \<open>The order of the springs\<close>

text \<open>
  Claim C10. In exact arithmetic the result of the step does not depend on the order of the
  springs: for two spring lists that are permutations of each other the step ends with the
  same completion, the same positions and the same velocities.
\<close>

theorem spring_order_irrelevant:
  assumes "mset sps = mset sps'"
  shows "fst (SimTimeStep dt ps vs sps stiffness damping particleMass gravity restitution)
           = fst (SimTimeStep dt ps vs sps' stiffness damping particleMass gravity restitution)
       \<and> positions (snd (SimTimeStep dt ps vs sps stiffness damping particleMass gravity
            restitution))
           = positions (snd (SimTimeStep dt ps vs sps' stiffness damping particleMass gravity
            restitution))
       \<and> velocities (snd (SimTimeStep dt ps vs sps stiffness damping particleMass gravity
            restitution))
           = velocities (snd (SimTimeStep dt ps vs sps' stiffness damping particleMass gravity
            restitution))"
proof -
  have "length (init_forces (length ps) gravity particleMass) = length ps" by simp
  from spring_loop_perm [OF assms this, of vs stiffness damping]
  show ?thesis by (rule SimTimeStep_springs_only_through_forces)
qed

theorem spring_order_irrelevant_witness:
  "mset [\<lparr>p0 = 0, p1 = 1, rest = 2\<rparr>, \<lparr>p0 = 1, p1 = 2, rest = 1/2\<rparr>]
     = mset [\<lparr>p0 = 1, p1 = 2, rest = 1/2\<rparr>, \<lparr>p0 = 0, p1 = 1, rest = 2\<rparr>]
   \<and> positions (snd (SimTimeStep (1/10) [Vec3 0 0 0, Vec3 (1/2) 0 0, Vec3 (1/2) (1/2) 0]
          [Vec3 0 0 0, Vec3 0 1 0, Vec3 0 0 0]
          [\<lparr>p0 = 0, p1 = 1, rest = 2\<rparr>, \<lparr>p0 = 1, p1 = 2, rest = 1/2\<rparr>]
          3 1 2 (Vec3 0 0 (- 1)) (1/2)))
     = positions (snd (SimTimeStep (1/10) [Vec3 0 0 0, Vec3 (1/2) 0 0, Vec3 (1/2) (1/2) 0]
          [Vec3 0 0 0, Vec3 0 1 0, Vec3 0 0 0]
          [\<lparr>p0 = 1, p1 = 2, rest = 1/2\<rparr>, \<lparr>p0 = 0, p1 = 1, rest = 2\<rparr>]
          3 1 2 (Vec3 0 0 (- 1)) (1/2)))"
proof -
  have m: "mset [\<lparr>p0 = 0, p1 = 1, rest = 2\<rparr>, \<lparr>p0 = 1, p1 = 2, rest = 1/2\<rparr>]
     = mset [\<lparr>p0 = 1, p1 = 2, rest = 1/2\<rparr>, \<lparr>p0 = 0, p1 = 1, rest = (2::real)\<rparr>]"
    by (simp add: add_mset_commute)
  from spring_order_irrelevant [OF m] m show ?thesis by blast
qed

end
